theory Spec2Isabelle
  imports Complex_Main "HOL-Library.Sublist"
begin

section \<open>Python values\<close>

text \<open>
  The program is one Python file, \<^verbatim>\<open>main_ui.py\<close>: a Qt window that compiles the parameters
  of a render or preview job, runs the job on a worker thread and keeps a project document.
  The rendering engine (\<^verbatim>\<open>video_processor\<close>), the animation catalogs, the lyric parser, Qt
  and the operating system are outside the file; they appear below as parameters that say
  what they did or returned.

  A Python \<^verbatim>\<open>str\<close> is modelled as a \<^typ>\<open>string\<close> holding its UTF-8 bytes, so the
  Chinese literals of the source are written byte by byte. The only string operations the
  model needs are concatenation, equality, emptiness and the substring test \<^verbatim>\<open>in\<close>, and on
  well-formed UTF-8 they agree with the same operations on code points.

  An exception is a value: its class name and the text \<^verbatim>\<open>str(e)\<close> gives. The values of
  \<open>py_exception\<close> are the instances of Python's class \<^verbatim>\<open>Exception\<close>, which is the class every
  handler of the file names (\<^verbatim>\<open>except Exception as e\<close>); \<^verbatim>\<open>SystemExit\<close>,
  \<^verbatim>\<open>KeyboardInterrupt\<close> and \<^verbatim>\<open>GeneratorExit\<close> are no instances of it and are not modelled.
\<close>

datatype py_exception = PyException (exc_class: string) (exc_str: string)

definition KeyError :: "string \<Rightarrow> py_exception" where
  \<comment> \<open>str(KeyError(k)) is repr(k)\<close>
  "KeyError k = PyException ''KeyError'' ([CHR 0x27] @ k @ [CHR 0x27])"

definition truthy :: "string option \<Rightarrow> bool" where
  \<comment> \<open>the truth value of a \<^verbatim>\<open>str\<close> or \<^verbatim>\<open>None\<close>: false for \<^verbatim>\<open>None\<close> and for the empty string\<close>
  "truthy v = (case v of None \<Rightarrow> False | Some s \<Rightarrow> s \<noteq> [])"

subsection \<open>String literals of the source\<close>

definition success_marker :: string where
  \<comment> \<open>line 595: the marker looked for in the terminal message (Chinese for success)\<close>
  "success_marker =
     [CHR 0xE6, CHR 0x88, CHR 0x90, CHR 0xE5, CHR 0x8A, CHR 0x9F]"

definition video_success_message :: string where
  \<comment> \<open>line 74: the terminal message of a render job whose engine call returned\<close>
  "video_success_message =
     [CHR 0xE6, CHR 0x88, CHR 0x90, CHR 0xE5, CHR 0x8A, CHR 0x9F, CHR 0xEF, CHR 0xBC,
     CHR 0x81, CHR 0xE8, CHR 0xA7, CHR 0x86, CHR 0xE9, CHR 0xA2, CHR 0x91, CHR 0xE5,
     CHR 0xB7, CHR 0xB2, CHR 0xE7, CHR 0x94, CHR 0x9F, CHR 0xE6, CHR 0x88, CHR 0x90,
     CHR 0xE3, CHR 0x80, CHR 0x82]"

definition video_error_prefix :: string where
  \<comment> \<open>line 77: what precedes str(e) in the terminal message of a failed render job\<close>
  "video_error_prefix =
     [CHR 0xE5, CHR 0x8F, CHR 0x91, CHR 0xE7, CHR 0x94, CHR 0x9F, CHR 0xE9, CHR 0x94,
     CHR 0x99, CHR 0xE8, CHR 0xAF, CHR 0xAF] @ '': ''"

definition preview_missing_message :: string where
  \<comment> \<open>line 96: the text of the FileNotFoundError raised for a missing or empty image\<close>
  "preview_missing_message =
     ''FFmpeg'' @ [CHR 0xE6, CHR 0x9C, CHR 0xAA, CHR 0xE8, CHR 0x83, CHR 0xBD, CHR 0xE6,
     CHR 0x88, CHR 0x90, CHR 0xE5, CHR 0x8A, CHR 0x9F, CHR 0xE5, CHR 0x88, CHR 0x9B,
     CHR 0xE5, CHR 0xBB, CHR 0xBA, CHR 0xE9, CHR 0xA2, CHR 0x84, CHR 0xE8, CHR 0xA7,
     CHR 0x88, CHR 0xE5, CHR 0x9B, CHR 0xBE, CHR 0xE7, CHR 0x89, CHR 0x87, CHR 0xE3,
     CHR 0x80, CHR 0x82]"

definition preview_invalid_message :: string where
  \<comment> \<open>line 100: the error text for an image that does not load\<close>
  "preview_invalid_message =
     [CHR 0xE7, CHR 0x94, CHR 0x9F, CHR 0xE6, CHR 0x88, CHR 0x90, CHR 0xE7, CHR 0x9A,
     CHR 0x84, CHR 0xE9, CHR 0xA2, CHR 0x84, CHR 0xE8, CHR 0xA7, CHR 0x88, CHR 0xE5,
     CHR 0x9B, CHR 0xBE, CHR 0xE7, CHR 0x89, CHR 0x87, CHR 0xE6, CHR 0x97, CHR 0xA0,
     CHR 0xE6, CHR 0x95, CHR 0x88, CHR 0xE6, CHR 0x88, CHR 0x96, CHR 0xE6, CHR 0x97,
     CHR 0xA0, CHR 0xE6, CHR 0xB3, CHR 0x95, CHR 0xE5, CHR 0x8A, CHR 0xA0, CHR 0xE8,
     CHR 0xBD, CHR 0xBD, CHR 0xE3, CHR 0x80, CHR 0x82]"

definition preview_error_prefix :: string where
  \<comment> \<open>line 105: what precedes str(e) in the terminal message of a failed preview job\<close>
  "preview_error_prefix =
     [CHR 0xE7, CHR 0x94, CHR 0x9F, CHR 0xE6, CHR 0x88, CHR 0x90, CHR 0xE9, CHR 0xA2,
     CHR 0x84, CHR 0xE8, CHR 0xA7, CHR 0x88, CHR 0xE6, CHR 0x97, CHR 0xB6, CHR 0xE5,
     CHR 0x8F, CHR 0x91, CHR 0xE7, CHR 0x94, CHR 0x9F, CHR 0xE9, CHR 0x94, CHR 0x99,
     CHR 0xE8, CHR 0xAF, CHR 0xAF] @ '': ''"

definition audio_error_prefix :: string where
  \<comment> \<open>line 57: what precedes str(e) in the duration probe's error message\<close>
  "audio_error_prefix =
     [CHR 0xE8, CHR 0x8E, CHR 0xB7, CHR 0xE5, CHR 0x8F, CHR 0x96, CHR 0xE9, CHR 0x9F,
     CHR 0xB3, CHR 0xE9, CHR 0xA2, CHR 0x91, CHR 0xE6, CHR 0x97, CHR 0xB6, CHR 0xE9,
     CHR 0x95, CHR 0xBF, CHR 0xE5, CHR 0xA4, CHR 0xB1, CHR 0xE8, CHR 0xB4, CHR 0xA5]
     @ '': ''"

definition desc_audio :: string where
  \<comment> \<open>line 338: the name of the audio role shown to the user\<close>
  "desc_audio =
     [CHR 0xE9, CHR 0x9F, CHR 0xB3, CHR 0xE9, CHR 0xA2, CHR 0x91]"

definition desc_cover :: string where
  \<comment> \<open>line 338: the name of the cover role shown to the user\<close>
  "desc_cover =
     [CHR 0xE5, CHR 0xB0, CHR 0x81, CHR 0xE9, CHR 0x9D, CHR 0xA2]"

definition desc_lrc :: string where
  \<comment> \<open>line 338: the name of the lyric role shown to the user\<close>
  "desc_lrc =
     [CHR 0xE6, CHR 0xAD, CHR 0x8C, CHR 0xE8, CHR 0xAF, CHR 0x8D]"

definition input_error_title :: string where
  \<comment> \<open>line 341: title of the warning for an invalid asset path\<close>
  "input_error_title =
     [CHR 0xE8, CHR 0xBE, CHR 0x93, CHR 0xE5, CHR 0x85, CHR 0xA5, CHR 0xE9, CHR 0x94,
     CHR 0x99, CHR 0xE8, CHR 0xAF, CHR 0xAF]"

definition input_error_before :: string where
  \<comment> \<open>line 341: the warning's text before the role name\<close>
  "input_error_before =
     [CHR 0xE8, CHR 0xAF, CHR 0xB7, CHR 0xE5, CHR 0x85, CHR 0x88, CHR 0xE9, CHR 0x80,
     CHR 0x89, CHR 0xE6, CHR 0x8B, CHR 0xA9, CHR 0xE4, CHR 0xB8, CHR 0x80, CHR 0xE4,
     CHR 0xB8, CHR 0xAA, CHR 0xE6, CHR 0x9C, CHR 0x89, CHR 0xE6, CHR 0x95, CHR 0x88,
     CHR 0xE7, CHR 0x9A, CHR 0x84] @ '' ''"

definition input_error_after :: string where
  \<comment> \<open>line 341: the warning's text after the role name\<close>
  "input_error_after =
     '' '' @ [CHR 0xE6, CHR 0x96, CHR 0x87, CHR 0xE4, CHR 0xBB, CHR 0xB6, CHR 0xEF,
     CHR 0xBC, CHR 0x81]"

definition font_error_title :: string where
  \<comment> \<open>line 348: title of the font error\<close>
  "font_error_title =
     [CHR 0xE5, CHR 0xAD, CHR 0x97, CHR 0xE4, CHR 0xBD, CHR 0x93, CHR 0xE9, CHR 0x94,
     CHR 0x99, CHR 0xE8, CHR 0xAF, CHR 0xAF]"

definition font_error_before :: string where
  \<comment> \<open>line 348: the font error's text before the font directory\<close>
  "font_error_before =
     [CHR 0xE8, CHR 0xAF, CHR 0xB7, CHR 0xE5, CHR 0x9C, CHR 0xA8] @ '' '' @ [CHR 0x27]"

definition font_error_after :: string where
  \<comment> \<open>line 348: the font error's text after the font directory\<close>
  "font_error_after =
     [CHR 0x27] @ '' '' @ [CHR 0xE6, CHR 0x96, CHR 0x87, CHR 0xE4, CHR 0xBB, CHR 0xB6,
     CHR 0xE5, CHR 0xA4, CHR 0xB9, CHR 0xE4, CHR 0xB8, CHR 0xAD, CHR 0xE6, CHR 0x94,
     CHR 0xBE, CHR 0xE7, CHR 0xBD, CHR 0xAE, CHR 0xE5, CHR 0xAD, CHR 0x97, CHR 0xE4,
     CHR 0xBD, CHR 0x93, CHR 0xE6, CHR 0x96, CHR 0x87, CHR 0xE4, CHR 0xBB, CHR 0xB6,
     CHR 0xEF, CHR 0xBC, CHR 0x8C, CHR 0xE5, CHR 0xB9, CHR 0xB6, CHR 0xE5, CHR 0x9C,
     CHR 0xA8, CHR 0xE6, CHR 0xAD, CHR 0xA4, CHR 0xE5, CHR 0xA4, CHR 0x84, CHR 0xE9,
     CHR 0x80, CHR 0x89, CHR 0xE6, CHR 0x8B, CHR 0xA9, CHR 0xE5, CHR 0xAE, CHR 0x83,
     CHR 0xE4, CHR 0xBB, CHR 0xAC, CHR 0xE3, CHR 0x80, CHR 0x82]"

definition preview_failed_title :: string where
  \<comment> \<open>line 402: title of the preview failure dialog\<close>
  "preview_failed_title =
     [CHR 0xE9, CHR 0xA2, CHR 0x84, CHR 0xE8, CHR 0xA7, CHR 0x88, CHR 0xE5, CHR 0xA4,
     CHR 0xB1, CHR 0xE8, CHR 0xB4, CHR 0xA5]"

definition preview_failed_before :: string where
  \<comment> \<open>line 402: the preview failure dialog's text before the error message\<close>
  "preview_failed_before =
     [CHR 0xE7, CHR 0x94, CHR 0x9F, CHR 0xE6, CHR 0x88, CHR 0x90, CHR 0xE9, CHR 0xA2,
     CHR 0x84, CHR 0xE8, CHR 0xA7, CHR 0x88, CHR 0xE6, CHR 0x97, CHR 0xB6, CHR 0xE5,
     CHR 0x8F, CHR 0x91, CHR 0xE7, CHR 0x94, CHR 0x9F, CHR 0xE9, CHR 0x94, CHR 0x99,
     CHR 0xE8, CHR 0xAF, CHR 0xAF] @ '':'' @ [CHR 0x0A]"

definition preview_failed_display :: string where
  \<comment> \<open>line 403: text shown in place of the preview after a failure\<close>
  "preview_failed_display =
     [CHR 0xE9, CHR 0xA2, CHR 0x84, CHR 0xE8, CHR 0xA7, CHR 0x88, CHR 0xE7, CHR 0x94,
     CHR 0x9F, CHR 0xE6, CHR 0x88, CHR 0x90, CHR 0xE5, CHR 0xA4, CHR 0xB1, CHR 0xE8,
     CHR 0xB4, CHR 0xA5]"

definition preview_generating_display :: string where
  \<comment> \<open>line 385: text shown in place of the preview while the job runs\<close>
  "preview_generating_display =
     [CHR 0xE6, CHR 0xAD, CHR 0xA3, CHR 0xE5, CHR 0x9C, CHR 0xA8, CHR 0xE7, CHR 0x94,
     CHR 0x9F, CHR 0xE6, CHR 0x88, CHR 0x90] @ ''...''"

definition done_title :: string where
  \<comment> \<open>line 598: title of the render success dialog\<close>
  "done_title =
     [CHR 0xE5, CHR 0xAE, CHR 0x8C, CHR 0xE6, CHR 0x88, CHR 0x90]"

definition failed_title :: string where
  \<comment> \<open>line 601: title of the render failure dialog\<close>
  "failed_title =
     [CHR 0xE5, CHR 0xA4, CHR 0xB1, CHR 0xE8, CHR 0xB4, CHR 0xA5]"

definition failed_before :: string where
  \<comment> \<open>line 601: the render failure dialog's text before the message\<close>
  "failed_before =
     [CHR 0xE7, CHR 0x94, CHR 0x9F, CHR 0xE6, CHR 0x88, CHR 0x90, CHR 0xE5, CHR 0xA4,
     CHR 0xB1, CHR 0xE8, CHR 0xB4, CHR 0xA5, CHR 0xEF, CHR 0xBC, CHR 0x81, CHR 0x0A,
     CHR 0xE9, CHR 0x94, CHR 0x99, CHR 0xE8, CHR 0xAF, CHR 0xAF] @ '': ''"

definition failed_after :: string where
  \<comment> \<open>line 601: the render failure dialog's text after the message\<close>
  "failed_after =
     [CHR 0x0A, CHR 0x0A, CHR 0xE8, CHR 0xAF, CHR 0xB7, CHR 0xE6, CHR 0xA3, CHR 0x80,
     CHR 0xE6, CHR 0x9F, CHR 0xA5, CHR 0xE6, CHR 0x97, CHR 0xA5, CHR 0xE5, CHR 0xBF,
     CHR 0x97, CHR 0xE8, CHR 0x8E, CHR 0xB7, CHR 0xE5, CHR 0x8F, CHR 0x96, CHR 0xE8,
     CHR 0xAF, CHR 0xA6, CHR 0xE7, CHR 0xBB, CHR 0x86, CHR 0xE4, CHR 0xBF, CHR 0xA1,
     CHR 0xE6, CHR 0x81, CHR 0xAF, CHR 0xE3, CHR 0x80, CHR 0x82]"

definition dependency_title :: string where
  \<comment> \<open>line 634: title of the warning for a missing FFmpeg\<close>
  "dependency_title =
     [CHR 0xE4, CHR 0xBE, CHR 0x9D, CHR 0xE8, CHR 0xB5, CHR 0x96, CHR 0xE8, CHR 0xAD,
     CHR 0xA6, CHR 0xE5, CHR 0x91, CHR 0x8A]"

definition dependency_text :: string where
  \<comment> \<open>line 634: text of the warning for a missing FFmpeg\<close>
  "dependency_text =
     [CHR 0xE6, CHR 0x9C, CHR 0xAA, CHR 0xE6, CHR 0x89, CHR 0xBE, CHR 0xE5, CHR 0x88,
     CHR 0xB0, CHR 0xE6, CHR 0x9C, CHR 0x89, CHR 0xE6, CHR 0x95, CHR 0x88, CHR 0xE7,
     CHR 0x9A, CHR 0x84] @ '' FFmpeg'' @ [CHR 0xE3, CHR 0x80, CHR 0x82, CHR 0xE8, CHR 0xAF,
     CHR 0xB7, CHR 0xE5, CHR 0x9C, CHR 0xA8, CHR 0xE2, CHR 0x80, CHR 0x9C, CHR 0xE9,
     CHR 0xAB, CHR 0x98, CHR 0xE7, CHR 0xBA, CHR 0xA7, CHR 0xE8, CHR 0xAE, CHR 0xBE,
     CHR 0xE7, CHR 0xBD, CHR 0xAE, CHR 0xE2, CHR 0x80, CHR 0x9D, CHR 0xE4, CHR 0xB8,
     CHR 0xAD, CHR 0xE6, CHR 0x8C, CHR 0x87, CHR 0xE5, CHR 0xAE, CHR 0x9A, CHR 0xE5,
     CHR 0x85, CHR 0xB6, CHR 0xE8, CHR 0xB7, CHR 0xAF, CHR 0xE5, CHR 0xBE, CHR 0x84,
     CHR 0xE3, CHR 0x80, CHR 0x82]"

definition hw_accel_none :: string where
  \<comment> \<open>line 260: first item of the hardware acceleration catalog (software encoding)\<close>
  "hw_accel_none =
     [CHR 0xE6, CHR 0x97, CHR 0xA0] @ '' ('' @ [CHR 0xE8, CHR 0xBD, CHR 0xAF, CHR 0xE4,
     CHR 0xBB, CHR 0xB6, CHR 0xE7, CHR 0xBC, CHR 0x96, CHR 0xE7, CHR 0xA0, CHR 0x81]
     @ '' x264)''"

definition error_title :: string where
  \<comment> \<open>line 498: title of the project load failure dialog\<close>
  "error_title =
     [CHR 0xE9, CHR 0x94, CHR 0x99, CHR 0xE8, CHR 0xAF, CHR 0xAF]"

definition load_failed_before :: string where
  \<comment> \<open>line 498: the load failure dialog's text before str(e)\<close>
  "load_failed_before =
     [CHR 0xE5, CHR 0x8A, CHR 0xA0, CHR 0xE8, CHR 0xBD, CHR 0xBD, CHR 0xE5, CHR 0xB7,
     CHR 0xA5, CHR 0xE7, CHR 0xA8, CHR 0x8B, CHR 0xE6, CHR 0x96, CHR 0x87, CHR 0xE4,
     CHR 0xBB, CHR 0xB6, CHR 0xE5, CHR 0xA4, CHR 0xB1, CHR 0xE8, CHR 0xB4, CHR 0xA5]
     @ '': ''"

definition load_failed_after :: string where
  \<comment> \<open>line 498: the load failure dialog's text after str(e)\<close>
  "load_failed_after =
     [CHR 0x0A, CHR 0xE6, CHR 0x96, CHR 0x87, CHR 0xE4, CHR 0xBB, CHR 0xB6, CHR 0xE5,
     CHR 0x8F, CHR 0xAF, CHR 0xE8, CHR 0x83, CHR 0xBD, CHR 0xE5, CHR 0xB7, CHR 0xB2,
     CHR 0xE6, CHR 0x8D, CHR 0x9F, CHR 0xE5, CHR 0x9D, CHR 0x8F, CHR 0xE6, CHR 0x88,
     CHR 0x96, CHR 0xE6, CHR 0xA0, CHR 0xBC, CHR 0xE5, CHR 0xBC, CHR 0x8F, CHR 0xE4,
     CHR 0xB8, CHR 0x8D, CHR 0xE5, CHR 0x85, CHR 0xBC, CHR 0xE5, CHR 0xAE, CHR 0xB9,
     CHR 0xE3, CHR 0x80, CHR 0x82]"

definition preview_initial_display :: string where
  \<comment> \<open>line 235: text shown in place of the preview before any audio is loaded\<close>
  "preview_initial_display =
     [CHR 0xE5, CHR 0x8A, CHR 0xA0, CHR 0xE8, CHR 0xBD, CHR 0xBD, CHR 0xE9, CHR 0x9F,
     CHR 0xB3, CHR 0xE9, CHR 0xA2, CHR 0x91, CHR 0xE6, CHR 0x96, CHR 0x87, CHR 0xE4,
     CHR 0xBB, CHR 0xB6, CHR 0xE5, CHR 0x90, CHR 0x8E, CHR 0xE5, CHR 0x8F, CHR 0xAF,
     CHR 0xE8, CHR 0xBF, CHR 0x9B, CHR 0xE8, CHR 0xA1, CHR 0x8C, CHR 0xE9, CHR 0xA2,
     CHR 0x84, CHR 0xE8, CHR 0xA7, CHR 0x88]"


section \<open>Worker signals and the progress relay\<close>

text \<open>
  The three worker classes declare their signals as class attributes: \<^verbatim>\<open>AudioInfoWorker\<close> has
  \<^verbatim>\<open>finished(float, str)\<close> and \<^verbatim>\<open>status(str)\<close>; \<^verbatim>\<open>VideoWorker\<close> has \<^verbatim>\<open>progress(int)\<close>,
  \<^verbatim>\<open>status(str)\<close> and \<^verbatim>\<open>finished(str)\<close>; \<^verbatim>\<open>PreviewWorker\<close> has \<^verbatim>\<open>finished(QPixmap, str)\<close> and
  \<^verbatim>\<open>status(str)\<close>, and no \<^verbatim>\<open>progress\<close>. What a worker sends to the window is the list of its
  emitted signals, in order.
\<close>

datatype pixmap = NullPixmap | Pixmap string

datatype worker_class = AudioInfoWorker | VideoWorker | PreviewWorker

datatype signal =
    Progress int
  | Status string
  | FinishedVideo string
  | FinishedPreview pixmap string
  | FinishedAudio real string

fun class_name :: "worker_class \<Rightarrow> string" where
  "class_name AudioInfoWorker = ''AudioInfoWorker''"
| "class_name VideoWorker = ''VideoWorker''"
| "class_name PreviewWorker = ''PreviewWorker''"

fun has_progress_signal :: "worker_class \<Rightarrow> bool" where
  "has_progress_signal VideoWorker = True"
| "has_progress_signal AudioInfoWorker = False"
| "has_progress_signal PreviewWorker = False"

definition AttributeError :: "worker_class \<Rightarrow> string \<Rightarrow> py_exception" where
  "AttributeError w attr =
     PyException ''AttributeError''
       ([CHR 0x27] @ class_name w @ [CHR 0x27] @ '' object has no attribute '' @
        [CHR 0x27] @ attr @ [CHR 0x27])"

text \<open>
  \<^verbatim>\<open>class QtProglogLogger\<close> (lines 23-33). The relay keeps the worker it emits through and the
  last percent it forwarded.
\<close>

record QtProglogLogger =
  qt_emitter :: worker_class
  last_percent :: int

definition QtProglogLogger_init :: "worker_class \<Rightarrow> QtProglogLogger" where
  "QtProglogLogger_init emitter = \<lparr>qt_emitter = emitter, last_percent = - 1\<rparr>"

definition status_update :: "QtProglogLogger \<Rightarrow> string \<Rightarrow> signal list" where
  "status_update lg message = [Status message]"

definition progress_update ::
  "QtProglogLogger \<Rightarrow> int \<Rightarrow> py_exception + QtProglogLogger \<times> signal list" where
  \<comment> \<open>line 32 reads the attribute \<^verbatim>\<open>progress\<close> of the emitter before line 33 stores the percent\<close>
  "progress_update lg percent =
     (if percent > last_percent lg then
        (if has_progress_signal (qt_emitter lg)
         then Inr (lg\<lparr>last_percent := percent\<rparr>, [Progress percent])
         else Inl (AttributeError (qt_emitter lg) ''progress''))
      else Inr (lg, []))"

text \<open>
  The engine is handed the relay and calls it while it runs. Its run is described by the
  calls it made on the relay, in order, and by how the call into the engine ended. A call
  on the relay that raises emits nothing and leaves the relay as it was; what the engine
  does with that exception shows in its later calls and in how it ends.
\<close>

datatype logger_call = StatusUpdate string | ProgressUpdate int

record engine_run =
  calls :: "logger_call list"
  raised :: "py_exception option"

fun logger_calls :: "QtProglogLogger \<Rightarrow> logger_call list \<Rightarrow> QtProglogLogger \<times> signal list" where
  "logger_calls lg [] = (lg, [])"
| "logger_calls lg (StatusUpdate m # cs) =
     (case logger_calls lg cs of (lg', out) \<Rightarrow> (lg', status_update lg m @ out))"
| "logger_calls lg (ProgressUpdate p # cs) =
     (case progress_update lg p of
        Inl e \<Rightarrow> logger_calls lg cs
      | Inr (lg1, sigs) \<Rightarrow> (case logger_calls lg1 cs of (lg', out) \<Rightarrow> (lg', sigs @ out)))"

fun reported :: "logger_call list \<Rightarrow> int list" where
  "reported [] = []"
| "reported (StatusUpdate m # cs) = reported cs"
| "reported (ProgressUpdate p # cs) = p # reported cs"

fun progress_values :: "signal list \<Rightarrow> int list" where
  "progress_values [] = []"
| "progress_values (Progress p # sigs) = p # progress_values sigs"
| "progress_values (Status m # sigs) = progress_values sigs"
| "progress_values (FinishedVideo m # sigs) = progress_values sigs"
| "progress_values (FinishedPreview px m # sigs) = progress_values sigs"
| "progress_values (FinishedAudio d m # sigs) = progress_values sigs"

fun finished_signals :: "signal list \<Rightarrow> signal list" where
  "finished_signals [] = []"
| "finished_signals (Progress p # sigs) = finished_signals sigs"
| "finished_signals (Status m # sigs) = finished_signals sigs"
| "finished_signals (s # sigs) = s # finished_signals sigs"

section \<open>The file system\<close>

text \<open>
  A file has a size and either decodes as an image or does not. \<open>locked\<close> holds the paths
  the operating system refuses to delete (\<^verbatim>\<open>os.remove\<close> raises an \<^verbatim>\<open>OSError\<close>), the case line
  413 handles.
\<close>

record file_entry =
  st_size :: nat
  is_image :: bool

record filesystem =
  files :: "string \<rightharpoonup> file_entry"
  locked :: "string set"

definition os_path_exists :: "filesystem \<Rightarrow> string \<Rightarrow> bool" where
  "os_path_exists fs path = (files fs path \<noteq> None)"

definition os_path_getsize :: "filesystem \<Rightarrow> string \<Rightarrow> py_exception + nat" where
  "os_path_getsize fs path =
     (case files fs path of
        None \<Rightarrow> Inl (PyException ''FileNotFoundError'' path)
      | Some f \<Rightarrow> Inr (st_size f))"

definition os_remove :: "filesystem \<Rightarrow> string \<Rightarrow> py_exception + filesystem" where
  "os_remove fs path =
     (if files fs path = None then Inl (PyException ''FileNotFoundError'' path)
      else if path \<in> locked fs then Inl (PyException ''PermissionError'' path)
      else Inr (fs\<lparr>files := (files fs)(path := None)\<rparr>))"

definition QPixmap :: "filesystem \<Rightarrow> string \<Rightarrow> pixmap" where
  \<comment> \<open>\<^verbatim>\<open>QPixmap(path)\<close>: the null pixmap unless the file is there and decodes\<close>
  "QPixmap fs path =
     (case files fs path of
        None \<Rightarrow> NullPixmap
      | Some f \<Rightarrow> if 0 < st_size f \<and> is_image f then Pixmap path else NullPixmap)"

section \<open>Job parameters and the two job workers\<close>

text \<open>
  The parameter dictionary: the fifteen keys \<^verbatim>\<open>_gather_parameters\<close> returns (lines 352-368)
  and the keys added afterwards (\<^verbatim>\<open>output_path\<close> and \<^verbatim>\<open>hw_accel\<close> for a render job,
  \<^verbatim>\<open>output_image_path\<close> and \<^verbatim>\<open>preview_time\<close> for a preview job, \<^verbatim>\<open>logger\<close> by the worker);
  a key that is not in the dictionary is \<open>None\<close>. A colour is what the settings store holds
  under its key, \<open>None\<close> when it holds nothing.
\<close>

record params =
  audio_path :: string
  cover_path :: string
  lrc_path :: string
  font_primary :: string
  font_size_primary :: int
  font_secondary :: string
  font_size_secondary :: int
  color_primary :: "string option"
  color_secondary :: "string option"
  outline_color :: "string option"
  outline_width :: int
  background_anim :: string
  text_anim :: string
  cover_anim :: string
  p_ffmpeg_path :: string
  output_path :: "string option"
  hw_accel :: "string option"
  output_image_path :: "string option"
  preview_time :: "real option"
  logger :: "QtProglogLogger option"

text \<open>
  \<^verbatim>\<open>VideoWorker.run\<close> (lines 69-77). The result is the parameter dictionary as the worker
  leaves it and the signals it emitted. The dictionary holds the relay object under
  \<^verbatim>\<open>logger\<close>, so what it shows afterwards is the relay as the engine's calls left it. The
  whole body is inside \<^verbatim>\<open>try ... except Exception\<close>, so the function has no exception of
  its own to return.
\<close>

definition VideoWorker_run :: "params \<Rightarrow> engine_run \<Rightarrow> params \<times> signal list" where
  "VideoWorker_run ps engine =
     (let lg = QtProglogLogger_init VideoWorker;
          relayed = snd (logger_calls lg (calls engine));
          ps' = ps\<lparr>logger := Some (fst (logger_calls lg (calls engine)))\<rparr>
      in case raised engine of
           None \<Rightarrow> (ps', relayed @ [FinishedVideo video_success_message])
         | Some e \<Rightarrow> (ps', relayed @ [FinishedVideo (video_error_prefix @ exc_str e)]))"

text \<open>
  \<^verbatim>\<open>PreviewWorker.run\<close> (lines 87-105). \<open>fs\<close> is the file system as the engine call left it.
\<close>

definition PreviewWorker_run ::
  "params \<Rightarrow> engine_run \<Rightarrow> filesystem \<Rightarrow> params \<times> signal list" where
  "PreviewWorker_run ps engine fs =
     (let lg = QtProglogLogger_init PreviewWorker
      in case output_image_path ps of
           None \<Rightarrow>
             (ps\<lparr>logger := Some lg\<rparr>,
              [FinishedPreview NullPixmap
                 (preview_error_prefix @ exc_str (KeyError ''output_image_path''))])
         | Some path \<Rightarrow>
             (let relayed = snd (logger_calls lg (calls engine));
                  ps' = ps\<lparr>logger := Some (fst (logger_calls lg (calls engine)))\<rparr>
              in case raised engine of
                   Some e \<Rightarrow>
                     (ps', relayed @ [FinishedPreview NullPixmap (preview_error_prefix @ exc_str e)])
                 | None \<Rightarrow>
                     if \<not> os_path_exists fs path \<or> os_path_getsize fs path = Inr 0
                     then (ps', relayed @
                            [FinishedPreview NullPixmap
                               (preview_error_prefix @
                                exc_str (PyException ''FileNotFoundError'' preview_missing_message))])
                     else if QPixmap fs path = NullPixmap
                     then (ps', relayed @ [FinishedPreview NullPixmap preview_invalid_message])
                     else (ps', relayed @ [FinishedPreview (QPixmap fs path) []])))"

section \<open>Widgets\<close>

text \<open>
  A combo box that is not editable: its items and the index of the current one, \<open>-1\<close> when
  it has none. \<^verbatim>\<open>findText\<close> matches exactly and gives the first match or \<open>-1\<close>;
  \<^verbatim>\<open>setCurrentText\<close> moves to a matching item and does nothing without one; the first item
  added to an empty box becomes the current one.
\<close>

record QComboBox =
  items :: "string list"
  currentIndex :: int

definition QComboBox_new :: QComboBox where
  "QComboBox_new = \<lparr>items = [], currentIndex = - 1\<rparr>"

fun index_of :: "string \<Rightarrow> string list \<Rightarrow> int" where
  "index_of t [] = - 1"
| "index_of t (x # xs) =
     (if x = t then 0 else (let i = index_of t xs in if i = - 1 then - 1 else i + 1))"

definition findText :: "QComboBox \<Rightarrow> string \<Rightarrow> int" where
  "findText combo t = index_of t (items combo)"

definition currentText :: "QComboBox \<Rightarrow> string" where
  "currentText combo =
     (if 0 \<le> currentIndex combo \<and> currentIndex combo < int (length (items combo))
      then items combo ! nat (currentIndex combo) else [])"

definition setCurrentText :: "QComboBox \<Rightarrow> string \<Rightarrow> QComboBox" where
  "setCurrentText combo t =
     (let i = findText combo t in if i > - 1 then combo\<lparr>currentIndex := i\<rparr> else combo)"

definition addItems :: "QComboBox \<Rightarrow> string list \<Rightarrow> QComboBox" where
  "addItems combo xs =
     \<lparr>items = items combo @ xs,
      currentIndex = (if items combo = [] \<and> xs \<noteq> [] then 0 else currentIndex combo)\<rparr>"

definition create_combo_row :: "string list \<Rightarrow> QComboBox" where
  \<comment> \<open>\<^verbatim>\<open>_create_combo_row\<close>, lines 527-538\<close>
  "create_combo_row xs = addItems QComboBox_new xs"

definition set_combo_text :: "QComboBox \<Rightarrow> string option \<Rightarrow> QComboBox" where
  \<comment> \<open>\<^verbatim>\<open>_set_combo_text\<close>, lines 500-502\<close>
  "set_combo_text combo t =
     (case t of
        None \<Rightarrow> combo
      | Some s \<Rightarrow> if s \<noteq> [] \<and> findText combo s > - 1 then setCurrentText combo s else combo)"

text \<open>A spin box keeps its value inside its range: \<^verbatim>\<open>setValue\<close> clamps.\<close>

record QSpinBox =
  minimum :: int
  maximum :: int
  spin_value :: int

definition QSpinBox_new :: QSpinBox where
  "QSpinBox_new = \<lparr>minimum = 0, maximum = 99, spin_value = 0\<rparr>"

definition setValue :: "QSpinBox \<Rightarrow> int \<Rightarrow> QSpinBox" where
  "setValue sb v = sb\<lparr>spin_value := max (minimum sb) (min (maximum sb) v)\<rparr>"

definition setRange :: "QSpinBox \<Rightarrow> int \<Rightarrow> int \<Rightarrow> QSpinBox" where
  "setRange sb lo hi =
     \<lparr>minimum = lo, maximum = max lo hi,
      spin_value = max lo (min (max lo hi) (spin_value sb))\<rparr>"

datatype display = DisplayText string | DisplayPixmap pixmap

datatype dialog =
    Warning string string
  | Critical string string
  | Information string string

section \<open>The main window\<close>

text \<open>
  The attributes of \<^verbatim>\<open>MainWindow\<close> the functions below read or write. \<open>settings\<close> is the
  \<^verbatim>\<open>QSettings\<close> store (the three colours live only there); \<open>ui_enabled\<close> is the state
  \<^verbatim>\<open>set_ui_enabled\<close> gives the two job buttons. The log box, the lyric metadata and the audio
  duration are left out: no function below reads them, and the calls that write them
  (\<^verbatim>\<open>log_message\<close>, \<^verbatim>\<open>parse_lrc_file\<close>, \<^verbatim>\<open>get_audio_duration\<close>) write nothing else and
  raise nothing.
\<close>

record MainWindow =
  sys_platform :: string
  settings :: "string \<rightharpoonup> string"
  file_paths :: "string \<rightharpoonup> string"
  line_edits :: "string \<rightharpoonup> string"
  ffmpeg_path :: string
  ffmpeg_path_edit :: string
  font_dir :: string
  temp_dir :: string
  preview_image_path :: string
  bg_anim_combo :: QComboBox
  text_anim_combo :: QComboBox
  cover_anim_combo :: QComboBox
  hw_accel_combo :: QComboBox
  font_combo_primary :: QComboBox
  font_combo_secondary :: QComboBox
  font_size_spin_primary :: QSpinBox
  font_size_spin_secondary :: QSpinBox
  outline_width_spin :: QSpinBox
  preview_slider :: int
  preview_display :: display
  progress_bar :: int
  ui_enabled :: bool

definition os_sep :: "string \<Rightarrow> string" where
  "os_sep platform = (if platform = ''win32'' then [CHR 0x5C] else ''/'')"

definition path_join :: "string \<Rightarrow> string \<Rightarrow> string \<Rightarrow> string" where
  \<comment> \<open>\<^verbatim>\<open>str(directory / name)\<close> for a directory with a last component and a plain file name\<close>
  "path_join platform directory name = directory @ os_sep platform @ name"

definition hw_accel_items :: "string list" where
  \<comment> \<open>line 260\<close>
  "hw_accel_items =
     [hw_accel_none, ''NVIDIA (h264_nvenc)'', ''AMD (h264_amf)'', ''Intel (h264_qsv)'']"

definition create_color_selector ::
  "(string \<rightharpoonup> string) \<Rightarrow> string \<Rightarrow> string \<Rightarrow> (string \<rightharpoonup> string)" where
  \<comment> \<open>line 558 of \<^verbatim>\<open>_create_color_selector\<close>\<close>
  "create_color_selector store key default_color =
     (if \<not> truthy (store key) then store(key \<mapsto> default_color) else store)"

definition populate_fonts :: "string list option \<Rightarrow> MainWindow \<Rightarrow> MainWindow" where
  \<comment> \<open>lines 609-622; the argument is the list of font files of the font directory, \<open>None\<close>
      when the directory did not exist\<close>
  "populate_fonts font_files w =
     (case font_files of
        None \<Rightarrow> w
      | Some fs \<Rightarrow>
          if fs \<noteq> [] then
            w\<lparr>font_combo_primary := addItems (font_combo_primary w) fs,
              font_combo_secondary := addItems (font_combo_secondary w) fs\<rparr>
          else w)"

definition setup_ui ::
  "string \<Rightarrow> (string \<rightharpoonup> string) \<Rightarrow> string \<Rightarrow> string \<Rightarrow>
   string list \<Rightarrow> string list \<Rightarrow> string list \<Rightarrow> MainWindow" where
  \<comment> \<open>lines 111-132 with the widgets of \<^verbatim>\<open>setup_ui\<close>: the platform, the stored settings, the
      program directory, the system's temporary directory and the three animation catalogs\<close>
  "setup_ui platform store base_dir tmp bg_items text_items cover_items =
     \<lparr>sys_platform = platform,
      settings =
        create_color_selector
          (create_color_selector
             (create_color_selector store ''color_primary'' ''#FFFFFF'')
             ''color_secondary'' ''#DDDDDD'')
          ''outline_color'' ''#000000'',
      file_paths = [''audio'' \<mapsto> [], ''cover'' \<mapsto> [], ''lrc'' \<mapsto> []],
      line_edits = [''audio'' \<mapsto> [], ''cover'' \<mapsto> [], ''lrc'' \<mapsto> []],
      ffmpeg_path = (case store ''ffmpeg_path'' of None \<Rightarrow> ''ffmpeg'' | Some p \<Rightarrow> p),
      ffmpeg_path_edit = (case store ''ffmpeg_path'' of None \<Rightarrow> ''ffmpeg'' | Some p \<Rightarrow> p),
      font_dir = path_join platform base_dir ''font'',
      temp_dir = path_join platform tmp ''lrc2video'',
      preview_image_path = [],
      bg_anim_combo = create_combo_row bg_items,
      text_anim_combo = create_combo_row text_items,
      cover_anim_combo = create_combo_row cover_items,
      hw_accel_combo = create_combo_row hw_accel_items,
      font_combo_primary = QComboBox_new,
      font_combo_secondary = QComboBox_new,
      font_size_spin_primary = setValue (setRange QSpinBox_new 10 300) 56,
      font_size_spin_secondary = setValue (setRange QSpinBox_new 10 300) 48,
      outline_width_spin = setRange QSpinBox_new 0 20,
      preview_slider = 0,
      preview_display = DisplayText preview_initial_display,
      progress_bar = - 1,
      ui_enabled = True\<rparr>"

subsection \<open>Parameter compilation\<close>

definition file_types :: "(string \<times> string) list" where
  \<comment> \<open>the dictionary literal of line 338, in its order\<close>
  "file_types = [(''audio'', desc_audio), (''cover'', desc_cover), (''lrc'', desc_lrc)]"

definition invalid_path :: "filesystem \<Rightarrow> string option \<Rightarrow> bool" where
  \<comment> \<open>the test of line 340, \<^verbatim>\<open>not path or not os.path.exists(path)\<close>, on what
      \<^verbatim>\<open>self.file_paths.get(key)\<close> gave\<close>
  "invalid_path fs path =
     (case path of None \<Rightarrow> True | Some p \<Rightarrow> p = [] \<or> \<not> os_path_exists fs p)"

fun first_invalid_file ::
  "filesystem \<Rightarrow> (string \<rightharpoonup> string) \<Rightarrow> (string \<times> string) list \<Rightarrow> string option" where
  "first_invalid_file fs paths [] = None"
| "first_invalid_file fs paths ((key, desc) # rest) =
     (if invalid_path fs (paths key) then Some desc else first_invalid_file fs paths rest)"

definition gather_parameters :: "filesystem \<Rightarrow> MainWindow \<Rightarrow> dialog + params" where
  \<comment> \<open>\<^verbatim>\<open>_gather_parameters\<close>, lines 335-368. The three subscripts of lines 353-355 cannot
      fail: the loop has returned unless each role has a path.\<close>
  "gather_parameters fs w =
     (case first_invalid_file fs (file_paths w) file_types of
        Some desc \<Rightarrow>
          Inl (Warning input_error_title (input_error_before @ desc @ input_error_after))
      | None \<Rightarrow>
          (let font_primary_file = currentText (font_combo_primary w);
               font_secondary_file = currentText (font_combo_secondary w)
           in if font_primary_file = [] \<or> font_secondary_file = [] then
                Inl (Critical font_error_title (font_error_before @ font_dir w @ font_error_after))
              else
                Inr \<lparr>audio_path = the (file_paths w ''audio''),
                     cover_path = the (file_paths w ''cover''),
                     lrc_path = the (file_paths w ''lrc''),
                     font_primary = path_join (sys_platform w) (font_dir w) font_primary_file,
                     font_size_primary = spin_value (font_size_spin_primary w),
                     font_secondary = path_join (sys_platform w) (font_dir w) font_secondary_file,
                     font_size_secondary = spin_value (font_size_spin_secondary w),
                     color_primary = settings w ''color_primary'',
                     color_secondary = settings w ''color_secondary'',
                     outline_color = settings w ''outline_color'',
                     outline_width = spin_value (outline_width_spin w),
                     background_anim = currentText (bg_anim_combo w),
                     text_anim = currentText (text_anim_combo w),
                     cover_anim = currentText (cover_anim_combo w),
                     p_ffmpeg_path = ffmpeg_path w,
                     output_path = None,
                     hw_accel = None,
                     output_image_path = None,
                     preview_time = None,
                     logger = None\<rparr>))"

text \<open>
  \<^verbatim>\<open>check_ffmpeg\<close> (lines 624-635) runs the probe tool. The tool answers, or it is missing or
  exits with an error (the two exceptions line 632 catches), or the call raises something
  else, which leaves \<^verbatim>\<open>check_ffmpeg\<close> and its caller.
\<close>

datatype ffmpeg_check = FFmpegFound | FFmpegMissing | FFmpegCheckRaised py_exception

definition check_ffmpeg :: "ffmpeg_check \<Rightarrow> py_exception + bool \<times> dialog list" where
  "check_ffmpeg probe =
     (case probe of
        FFmpegFound \<Rightarrow> Inr (True, [])
      | FFmpegMissing \<Rightarrow> Inr (False, [Warning dependency_title dependency_text])
      | FFmpegCheckRaised e \<Rightarrow> Inl e)"



definition generation_finished :: "string \<Rightarrow> MainWindow \<Rightarrow> MainWindow \<times> dialog list" where
  \<comment> \<open>lines 593-603\<close>
  "generation_finished message w =
     (let is_success = sublist success_marker message
      in if is_success then
           (w\<lparr>ui_enabled := True, progress_bar := 100\<rparr>, [Information done_title message])
         else
           (w\<lparr>ui_enabled := True, progress_bar := 0\<rparr>,
            [Critical failed_title (failed_before @ message @ failed_after)]))"

text \<open>
  \<^verbatim>\<open>generate_preview\<close> (lines 370-395). \<open>token\<close> is \<^verbatim>\<open>os.urandom(8).hex()\<close>. Nothing in the
  \<^verbatim>\<open>try\<close> block of lines 376-390 raises in this model, so its handler has no branch.
\<close>

definition generate_preview ::
  "ffmpeg_check \<Rightarrow> filesystem \<Rightarrow> string \<Rightarrow> MainWindow \<Rightarrow>
   py_exception + MainWindow \<times> dialog list \<times> params option" where
  "generate_preview probe fs token w =
     (case check_ffmpeg probe of
        Inl e \<Rightarrow> Inl e
      | Inr (ok, shown) \<Rightarrow>
          if \<not> ok then Inr (w, shown, None)
          else
            (case gather_parameters fs w of
               Inl d \<Rightarrow> Inr (w, shown @ [d], None)
             | Inr ps \<Rightarrow>
                 (let path = path_join (sys_platform w) (temp_dir w)
                               (''preview_'' @ token @ ''.png'')
                  in Inr (w\<lparr>preview_image_path := path, ui_enabled := False,
                             preview_display := DisplayText preview_generating_display\<rparr>,
                          shown,
                          Some (ps\<lparr>output_image_path := Some path,
                                    preview_time := Some (real_of_int (preview_slider w) / 100)\<rparr>)))))"

text \<open>
  \<^verbatim>\<open>on_preview_finished\<close> (lines 397-414), the slot of the preview worker's \<^verbatim>\<open>finished\<close>
  signal. It returns the window, the file system and the dialogs it showed.
\<close>

definition on_preview_finished ::
  "pixmap \<Rightarrow> string \<Rightarrow> MainWindow \<Rightarrow> filesystem \<Rightarrow> MainWindow \<times> filesystem \<times> dialog list" where
  "on_preview_finished px error_message w fs =
     (let (w1, shown) =
            (if error_message \<noteq> [] then
               (w\<lparr>ui_enabled := True, preview_display := DisplayText preview_failed_display\<rparr>,
                [Critical preview_failed_title (preview_failed_before @ error_message)])
             else (w\<lparr>ui_enabled := True, preview_display := DisplayPixmap px\<rparr>, []));
          fs1 =
            (if preview_image_path w1 \<noteq> [] \<and> os_path_exists fs (preview_image_path w1) then
               (case os_remove fs (preview_image_path w1) of
                  Inr fs' \<Rightarrow> fs'
                | Inl e \<Rightarrow> fs)
             else fs)
      in (w1, fs1, shown))"

text \<open>
  Qt calls the slot once for each \<^verbatim>\<open>finished\<close> signal of the preview worker; the status
  signals go to the log.
\<close>

fun deliver_preview ::
  "signal list \<Rightarrow> MainWindow \<Rightarrow> filesystem \<Rightarrow> MainWindow \<times> filesystem \<times> dialog list" where
  "deliver_preview [] w fs = (w, fs, [])"
| "deliver_preview (FinishedPreview px msg # sigs) w fs =
     (case on_preview_finished px msg w fs of
        (w1, fs1, shown1) \<Rightarrow>
          (case deliver_preview sigs w1 fs1 of
             (w2, fs2, shown2) \<Rightarrow> (w2, fs2, shown1 @ shown2)))"
| "deliver_preview (s # sigs) w fs = deliver_preview sigs w fs"

text \<open>
  A whole preview job: the button handler, the engine call on the worker thread, which
  leaves the file system \<open>fs_engine\<close>, and the delivery of the worker's signals. The result
  is \<open>None\<close> when no worker was started.
\<close>

definition preview_job ::
  "ffmpeg_check \<Rightarrow> filesystem \<Rightarrow> string \<Rightarrow> engine_run \<Rightarrow> filesystem \<Rightarrow> MainWindow \<Rightarrow>
   (signal list \<times> MainWindow \<times> filesystem \<times> dialog list) option" where
  "preview_job probe fs token engine fs_engine w =
     (case generate_preview probe fs token w of
        Inr (w1, shown, Some ps) \<Rightarrow>
          (let sigs = snd (PreviewWorker_run ps engine fs_engine)
           in case deliver_preview sigs w1 fs_engine of
                (w2, fs2, shown2) \<Rightarrow> Some (sigs, w2, fs2, shown @ shown2))
      | _ \<Rightarrow> None)"

section \<open>The project document\<close>

text \<open>
  The document \<^verbatim>\<open>save_project\<close> writes and \<^verbatim>\<open>load_project\<close> reads, after \<^verbatim>\<open>json.load\<close>: a
  version, the asset paths by role, and the settings. It is modelled at its schema: a
  selection, a colour and the engine path are strings, a size is an integer, and a key that
  is missing (or \<^verbatim>\<open>null\<close>, for the string keys) is \<open>None\<close>. Keys the program does not know are
  not represented; \<^verbatim>\<open>load_project\<close> never looks at them.
\<close>

record project_settings =
  d_font_primary :: "string option"
  d_font_secondary :: "string option"
  d_font_size_primary :: "int option"
  d_font_size_secondary :: "int option"
  d_color_primary :: "string option"
  d_color_secondary :: "string option"
  d_outline_color :: "string option"
  d_outline_width :: "int option"
  d_ffmpeg_path :: "string option"
  d_background_anim :: "string option"
  d_text_anim :: "string option"
  d_cover_anim :: "string option"
  d_hw_accel :: "string option"

record project_data =
  version :: real
  d_file_paths :: "(string \<rightharpoonup> string) option"
  d_settings :: "project_settings option"

definition no_settings :: project_settings where
  \<comment> \<open>the empty dictionary of line 473\<close>
  "no_settings =
     \<lparr>d_font_primary = None, d_font_secondary = None, d_font_size_primary = None,
      d_font_size_secondary = None, d_color_primary = None, d_color_secondary = None,
      d_outline_color = None, d_outline_width = None, d_ffmpeg_path = None,
      d_background_anim = None, d_text_anim = None, d_cover_anim = None, d_hw_accel = None\<rparr>"

definition save_project :: "string \<Rightarrow> MainWindow \<Rightarrow> project_data option" where
  \<comment> \<open>lines 417-454: the dictionary handed to \<^verbatim>\<open>json.dump\<close>, for the path the dialog
      returned; \<open>None\<close> when the user cancelled\<close>
  "save_project path w =
     (if path = [] then None
      else Some
        \<lparr>version = 3,
         d_file_paths = Some (file_paths w),
         d_settings = Some
           \<lparr>d_font_primary = Some (currentText (font_combo_primary w)),
            d_font_secondary = Some (currentText (font_combo_secondary w)),
            d_font_size_primary = Some (spin_value (font_size_spin_primary w)),
            d_font_size_secondary = Some (spin_value (font_size_spin_secondary w)),
            d_color_primary = settings w ''color_primary'',
            d_color_secondary = settings w ''color_secondary'',
            d_outline_color = settings w ''outline_color'',
            d_outline_width = Some (spin_value (outline_width_spin w)),
            d_ffmpeg_path = Some (ffmpeg_path w),
            d_background_anim = Some (currentText (bg_anim_combo w)),
            d_text_anim = Some (currentText (text_anim_combo w)),
            d_cover_anim = Some (currentText (cover_anim_combo w)),
            d_hw_accel = Some (currentText (hw_accel_combo w))\<rparr>\<rparr>)"

definition set_color :: "string \<Rightarrow> string option \<Rightarrow> MainWindow \<Rightarrow> MainWindow" where
  \<comment> \<open>one round of the loop of lines 486-489\<close>
  "set_color key color_val w =
     (case color_val of
        None \<Rightarrow> w
      | Some c \<Rightarrow> if c \<noteq> [] then w\<lparr>settings := (settings w)(key \<mapsto> c)\<rparr> else w)"

datatype project_file = NoFileChosen | Unreadable py_exception | Parsed project_data

definition doc_file_paths :: "project_data \<Rightarrow> (string \<rightharpoonup> string)" where
  \<comment> \<open>\<^verbatim>\<open>project_data.get("file_paths", {})\<close>, line 466\<close>
  "doc_file_paths doc = (case d_file_paths doc of None \<Rightarrow> Map.empty | Some m \<Rightarrow> m)"

definition doc_settings :: "project_data \<Rightarrow> project_settings" where
  \<comment> \<open>\<^verbatim>\<open>project_data.get("settings", {})\<close>, line 473\<close>
  "doc_settings doc = (case d_settings doc of None \<Rightarrow> no_settings | Some s \<Rightarrow> s)"

definition load_document :: "project_data \<Rightarrow> MainWindow \<Rightarrow> MainWindow" where
  \<comment> \<open>lines 466-493\<close>
  "load_document doc w =
     (let paths = doc_file_paths doc;
          w1 = w\<lparr>file_paths := paths,
                 line_edits :=
                   (\<lambda>key. case line_edits w key of
                             None \<Rightarrow> None
                           | Some old \<Rightarrow> Some (case paths key of None \<Rightarrow> [] | Some p \<Rightarrow> p))\<rparr>;
          s = doc_settings doc;
          w2 = w1\<lparr>bg_anim_combo := set_combo_text (bg_anim_combo w1) (d_background_anim s),
                  text_anim_combo := set_combo_text (text_anim_combo w1) (d_text_anim s),
                  cover_anim_combo := set_combo_text (cover_anim_combo w1) (d_cover_anim s),
                  hw_accel_combo := set_combo_text (hw_accel_combo w1) (d_hw_accel s),
                  font_combo_primary := set_combo_text (font_combo_primary w1) (d_font_primary s),
                  font_combo_secondary :=
                    set_combo_text (font_combo_secondary w1) (d_font_secondary s)\<rparr>;
          w3 = w2\<lparr>font_size_spin_primary :=
                    setValue (font_size_spin_primary w2)
                      (case d_font_size_primary s of None \<Rightarrow> 56 | Some v \<Rightarrow> v),
                  font_size_spin_secondary :=
                    setValue (font_size_spin_secondary w2)
                      (case d_font_size_secondary s of None \<Rightarrow> 48 | Some v \<Rightarrow> v),
                  outline_width_spin :=
                    setValue (outline_width_spin w2)
                      (case d_outline_width s of None \<Rightarrow> 3 | Some v \<Rightarrow> v)\<rparr>;
          w4 = set_color ''outline_color'' (d_outline_color s)
                 (set_color ''color_secondary'' (d_color_secondary s)
                    (set_color ''color_primary'' (d_color_primary s) w3))
      in case d_ffmpeg_path s of
           None \<Rightarrow> w4
         | Some p \<Rightarrow> if p \<noteq> [] then w4\<lparr>ffmpeg_path := p, ffmpeg_path_edit := p\<rparr> else w4)"

definition load_project :: "project_file \<Rightarrow> MainWindow \<Rightarrow> MainWindow \<times> dialog list" where
  \<comment> \<open>lines 456-498: the dialog was cancelled, or the file does not open or parse (the
      exception is raised before line 466 changes anything), or it holds a document\<close>
  "load_project input w =
     (case input of
        NoFileChosen \<Rightarrow> (w, [])
      | Unreadable e \<Rightarrow>
          (w, [Critical error_title (load_failed_before @ exc_str e @ load_failed_after)])
      | Parsed doc \<Rightarrow> (load_document doc w, []))"

fun load_projects :: "project_file list \<Rightarrow> MainWindow \<Rightarrow> MainWindow" where
  "load_projects [] w = w"
| "load_projects (input # inputs) w = load_projects inputs (fst (load_project input w))"

text \<open>
  \<^verbatim>\<open>load_settings\<close> (lines 678-696), called once by the constructor. The stored values are
  strings; \<open>py_int\<close> is Python's \<^verbatim>\<open>int\<close> on a string, \<open>None\<close> where it raises \<^verbatim>\<open>ValueError\<close>.
  The function has no handler, so the exception leaves it.
\<close>

definition stored_int ::
  "(string \<Rightarrow> int option) \<Rightarrow> (string \<rightharpoonup> string) \<Rightarrow> string \<Rightarrow> int \<Rightarrow> py_exception + int" where
  \<comment> \<open>\<^verbatim>\<open>int(self.settings.value(key, default))\<close>\<close>
  "stored_int py_int store key default_value =
     (case store key of
        None \<Rightarrow> Inr default_value
      | Some s \<Rightarrow>
          (case py_int s of
             None \<Rightarrow> Inl (PyException ''ValueError'' s)
           | Some n \<Rightarrow> Inr n))"

definition load_settings ::
  "(string \<Rightarrow> int option) \<Rightarrow> MainWindow \<Rightarrow> py_exception + MainWindow" where
  "load_settings py_int w =
     (let store = settings w;
          path = (case store ''ffmpeg_path'' of None \<Rightarrow> ''ffmpeg'' | Some p \<Rightarrow> p);
          w1 = w\<lparr>ffmpeg_path := path, ffmpeg_path_edit := path,
                 bg_anim_combo := set_combo_text (bg_anim_combo w) (store ''background_anim''),
                 text_anim_combo := set_combo_text (text_anim_combo w) (store ''text_anim''),
                 cover_anim_combo := set_combo_text (cover_anim_combo w) (store ''cover_anim''),
                 hw_accel_combo := set_combo_text (hw_accel_combo w) (store ''hw_accel'')\<rparr>
      in case stored_int py_int store ''outline_width'' 3 of
           Inl e \<Rightarrow> Inl e
         | Inr ow \<Rightarrow>
             (let w2 = w1\<lparr>outline_width_spin := setValue (outline_width_spin w1) ow,
                          font_combo_primary :=
                            set_combo_text (font_combo_primary w1) (store ''font_primary'')\<rparr>
              in case stored_int py_int store ''font_size_primary'' 56 of
                   Inl e \<Rightarrow> Inl e
                 | Inr fp \<Rightarrow>
                     (let w3 = w2\<lparr>font_size_spin_primary :=
                                    setValue (font_size_spin_primary w2) fp,
                                  font_combo_secondary :=
                                    set_combo_text (font_combo_secondary w2)
                                      (store ''font_secondary'')\<rparr>
                      in case stored_int py_int store ''font_size_secondary'' 48 of
                           Inl e \<Rightarrow> Inl e
                         | Inr fsec \<Rightarrow>
                             Inr (w3\<lparr>font_size_spin_secondary :=
                                       setValue (font_size_spin_secondary w3) fsec\<rparr>))))"

section \<open>The duration probe\<close>

text \<open>
  \<^verbatim>\<open>AudioInfoWorker.run\<close> (lines 45-59). What the worker takes from outside the file:
  \<open>parent_join p name\<close> is \<^verbatim>\<open>str(Path(p).parent / name)\<close> of \<^verbatim>\<open>pathlib\<close> on the running
  platform, \<open>subprocess_run cmd\<close> is \<^verbatim>\<open>subprocess.run(cmd, check=True, ...)\<close> giving the
  standard output or the exception it raised (a missing tool, a non-zero exit), and
  \<open>py_float s\<close> is \<^verbatim>\<open>float(s.strip())\<close>, a number or the \<^verbatim>\<open>ValueError\<close> it raised.
\<close>

record probe_env =
  platform :: string
  parent_join :: "string \<Rightarrow> string \<Rightarrow> string"
  subprocess_run :: "string list \<Rightarrow> py_exception + string"
  py_float :: "string \<Rightarrow> py_exception + real"

definition ffprobe_exe :: "string \<Rightarrow> string" where
  "ffprobe_exe pf = (if pf = ''win32'' then ''ffprobe.exe'' else ''ffprobe'')"

definition ffprobe_path :: "probe_env \<Rightarrow> string \<Rightarrow> string" where
  \<comment> \<open>lines 47-50\<close>
  "ffprobe_path env ffmpeg_path_str =
     (if ffmpeg_path_str \<noteq> ''ffmpeg''
      then parent_join env ffmpeg_path_str (ffprobe_exe (platform env))
      else ffprobe_exe (platform env))"

definition ffprobe_cmd :: "probe_env \<Rightarrow> string \<Rightarrow> string \<Rightarrow> string list" where
  \<comment> \<open>line 52\<close>
  "ffprobe_cmd env ffmpeg_path_str audio_path_str =
     [ffprobe_path env ffmpeg_path_str, ''-v'', ''error'', ''-show_entries'',
      ''format=duration'', ''-of'', ''default=noprint_wrappers=1:nokey=1'', audio_path_str]"

definition AudioInfoWorker_run :: "probe_env \<Rightarrow> string \<Rightarrow> string \<Rightarrow> signal list" where
  "AudioInfoWorker_run env ffmpeg_path_str audio_path_str =
     (let failed = (\<lambda>e. let error_msg = audio_error_prefix @ exc_str e
                         in [Status error_msg, FinishedAudio 0 error_msg])
      in case subprocess_run env (ffprobe_cmd env ffmpeg_path_str audio_path_str) of
           Inl e \<Rightarrow> failed e
         | Inr stdout \<Rightarrow>
             (case py_float env stdout of
                Inl e \<Rightarrow> failed e
              | Inr duration \<Rightarrow> [FinishedAudio duration []]))"

text \<open>
  \<^verbatim>\<open>pathlib\<close> on a POSIX platform, for running the probe on concrete paths: a path is its
  root (nothing, one slash, or two slashes when it starts with exactly two) and its
  components, without the empty ones and the dots.
\<close>

fun split_path :: "string \<Rightarrow> string \<Rightarrow> string list" where
  "split_path acc [] = [rev acc]"
| "split_path acc (c # cs) =
     (if c = CHR ''/'' then rev acc # split_path [] cs else split_path (c # acc) cs)"

definition posix_parts :: "string \<Rightarrow> string list" where
  "posix_parts p = filter (\<lambda>x. x \<noteq> [] \<and> x \<noteq> ''.'') (split_path [] p)"

definition posix_root :: "string \<Rightarrow> string" where
  "posix_root p =
     (if take 2 p = ''//'' \<and> take 3 p \<noteq> ''///'' then ''//''
      else if take 1 p = ''/'' then ''/'' else [])"

fun join_parts :: "string list \<Rightarrow> string" where
  "join_parts [] = []"
| "join_parts [x] = x"
| "join_parts (x # y # ys) = x @ ''/'' @ join_parts (y # ys)"

definition posix_str :: "string \<Rightarrow> string list \<Rightarrow> string" where
  "posix_str rt parts = (if rt = [] \<and> parts = [] then ''.'' else rt @ join_parts parts)"

definition posix_parent_join :: "string \<Rightarrow> string \<Rightarrow> string" where
  "posix_parent_join p name =
     (if posix_root name \<noteq> [] then posix_str (posix_root name) (posix_parts name)
      else posix_str (posix_root p) (butlast (posix_parts p) @ posix_parts name))"

section \<open>Conditions on a window\<close>

text \<open>
  A combo box is well formed when its current index is \<open>-1\<close> for an empty box and the index
  of an item otherwise; a spin box when its value is inside its range. Both hold of the
  widgets as the window builds them and are kept by every function above.
\<close>

definition combo_ok :: "QComboBox \<Rightarrow> bool" where
  "combo_ok combo =
     (if items combo = [] then currentIndex combo = - 1
      else 0 \<le> currentIndex combo \<and> currentIndex combo < int (length (items combo)))"

definition combos_ok :: "MainWindow \<Rightarrow> bool" where
  "combos_ok w =
     (combo_ok (bg_anim_combo w) \<and> combo_ok (text_anim_combo w) \<and>
      combo_ok (cover_anim_combo w) \<and> combo_ok (hw_accel_combo w) \<and>
      combo_ok (font_combo_primary w) \<and> combo_ok (font_combo_secondary w))"

definition spin_ok :: "QSpinBox \<Rightarrow> bool" where
  "spin_ok sb = (minimum sb \<le> spin_value sb \<and> spin_value sb \<le> maximum sb)"

definition spins_ok :: "MainWindow \<Rightarrow> bool" where
  "spins_ok w =
     (spin_ok (font_size_spin_primary w) \<and> spin_ok (font_size_spin_secondary w) \<and>
      spin_ok (outline_width_spin w))"

definition populated :: "MainWindow \<Rightarrow> bool" where
  \<comment> \<open>every selection, every colour and the engine path holds a string that is not empty\<close>
  "populated w =
     (currentText (bg_anim_combo w) \<noteq> [] \<and> currentText (text_anim_combo w) \<noteq> [] \<and>
      currentText (cover_anim_combo w) \<noteq> [] \<and> currentText (hw_accel_combo w) \<noteq> [] \<and>
      currentText (font_combo_primary w) \<noteq> [] \<and> currentText (font_combo_secondary w) \<noteq> [] \<and>
      truthy (settings w ''color_primary'') \<and> truthy (settings w ''color_secondary'') \<and>
      truthy (settings w ''outline_color'') \<and> ffmpeg_path w \<noteq> [])"

definition same_widgets :: "MainWindow \<Rightarrow> MainWindow \<Rightarrow> bool" where
  \<comment> \<open>two windows with the same catalogs and the same spin box ranges\<close>
  "same_widgets w w0 =
     (items (bg_anim_combo w) = items (bg_anim_combo w0) \<and>
      items (text_anim_combo w) = items (text_anim_combo w0) \<and>
      items (cover_anim_combo w) = items (cover_anim_combo w0) \<and>
      items (hw_accel_combo w) = items (hw_accel_combo w0) \<and>
      items (font_combo_primary w) = items (font_combo_primary w0) \<and>
      items (font_combo_secondary w) = items (font_combo_secondary w0) \<and>
      minimum (font_size_spin_primary w) = minimum (font_size_spin_primary w0) \<and>
      maximum (font_size_spin_primary w) = maximum (font_size_spin_primary w0) \<and>
      minimum (font_size_spin_secondary w) = minimum (font_size_spin_secondary w0) \<and>
      maximum (font_size_spin_secondary w) = maximum (font_size_spin_secondary w0) \<and>
      minimum (outline_width_spin w) = minimum (outline_width_spin w0) \<and>
      maximum (outline_width_spin w) = maximum (outline_width_spin w0))"

section \<open>Sample values\<close>

text \<open>
  A window on a POSIX platform with empty stored settings, two fonts in its font directory
  and the three assets chosen, the files it names, and the parameters it compiles to.
\<close>

definition sample_window :: MainWindow where
  "sample_window =
     (populate_fonts (Some [''a.ttf'', ''b.otf''])
        (setup_ui ''linux'' Map.empty ''/opt/app'' ''/tmp''
           [''none'', ''blur''] [''fade'', ''slide''] [''static'', ''rotate'']))
     \<lparr>file_paths :=
        [''audio'' \<mapsto> ''/m/song.mp3'', ''cover'' \<mapsto> ''/m/cover.png'', ''lrc'' \<mapsto> ''/m/song.lrc''],
      line_edits :=
        [''audio'' \<mapsto> ''/m/song.mp3'', ''cover'' \<mapsto> ''/m/cover.png'', ''lrc'' \<mapsto> ''/m/song.lrc'']\<rparr>"

definition sample_fs :: filesystem where
  "sample_fs =
     \<lparr>files =
        [''/m/song.mp3'' \<mapsto> \<lparr>st_size = 4000, is_image = False\<rparr>,
         ''/m/cover.png'' \<mapsto> \<lparr>st_size = 900, is_image = True\<rparr>,
         ''/m/song.lrc'' \<mapsto> \<lparr>st_size = 120, is_image = False\<rparr>],
      locked = {}\<rparr>"

definition sample_params :: params where
  "sample_params =
     \<lparr>audio_path = ''/m/song.mp3'',
      cover_path = ''/m/cover.png'',
      lrc_path = ''/m/song.lrc'',
      font_primary = ''/opt/app/font/a.ttf'',
      font_size_primary = 56,
      font_secondary = ''/opt/app/font/a.ttf'',
      font_size_secondary = 48,
      color_primary = Some ''#FFFFFF'',
      color_secondary = Some ''#DDDDDD'',
      outline_color = Some ''#000000'',
      outline_width = 0,
      background_anim = ''none'',
      text_anim = ''fade'',
      cover_anim = ''static'',
      p_ffmpeg_path = ''ffmpeg'',
      output_path = None,
      hw_accel = None,
      output_image_path = None,
      preview_time = None,
      logger = None\<rparr>"

definition sample_engine :: engine_run where
  \<comment> \<open>an engine that repeats a percent, steps back once and returns\<close>
  "sample_engine =
     \<lparr>calls = [ProgressUpdate 0, ProgressUpdate 0, ProgressUpdate 40, StatusUpdate ''frame 960'',
               ProgressUpdate 20, ProgressUpdate 100],
      raised = None\<rparr>"

definition sample_preview_params :: params where
  \<comment> \<open>the sample parameters as \<^verbatim>\<open>generate_preview\<close> completes them\<close>
  "sample_preview_params =
     sample_params\<lparr>output_image_path := Some ''/tmp/lrc2video/preview_00ff.png'',
                   preview_time := Some 0\<rparr>"

definition failing_engine :: engine_run where
  \<comment> \<open>an engine that reports once and then raises\<close>
  "failing_engine =
     \<lparr>calls = [StatusUpdate ''encoding'', ProgressUpdate 10],
      raised = Some (PyException ''RuntimeError'' ''ffmpeg exited with code 1'')\<rparr>"


definition sample_preview_path :: string where
  "sample_preview_path = ''/tmp/lrc2video/preview_00ff.png''"

definition fs_empty_preview :: filesystem where
  \<comment> \<open>the engine has left a preview image of zero bytes\<close>
  "fs_empty_preview =
     sample_fs\<lparr>files := (files sample_fs)
                  (sample_preview_path \<mapsto> \<lparr>st_size = 0, is_image = False\<rparr>)\<rparr>"

definition fs_locked_preview :: filesystem where
  \<comment> \<open>the same, and the operating system refuses to delete the image\<close>
  "fs_locked_preview = fs_empty_preview\<lparr>locked := {sample_preview_path}\<rparr>"

definition quiet_engine :: engine_run where
  \<comment> \<open>an engine that reports nothing and returns\<close>
  "quiet_engine = \<lparr>calls = [], raised = None\<rparr>"


definition posix_env :: "(string list \<Rightarrow> py_exception + string) \<Rightarrow> probe_env" where
  \<comment> \<open>a POSIX platform, with the given behaviour of the probe tool and a \<^verbatim>\<open>float\<close> that
      reads the two outputs used below\<close>
  "posix_env run =
     \<lparr>platform = ''linux'',
      parent_join = posix_parent_join,
      subprocess_run = run,
      py_float = (\<lambda>s. if s = ''12.5'' then Inr (25 / 2)
                       else if s = ''3'' then Inr 3
                       else Inl (PyException ''ValueError''
                                   (''could not convert string to float: '' @ s)))\<rparr>"

definition tool_missing :: "string list \<Rightarrow> py_exception + string" where
  "tool_missing cmd =
     Inl (PyException ''FileNotFoundError'' (''[Errno 2] No such file or directory: '' @ hd cmd))"

definition tool_prints :: "string \<Rightarrow> string list \<Rightarrow> py_exception + string" where
  "tool_prints out cmd = Inr out"

definition edited_window :: MainWindow where
  \<comment> \<open>the sample window after the user has changed every setting\<close>
  "edited_window =
     sample_window
       \<lparr>settings := (settings sample_window)
          (''color_primary'' \<mapsto> ''#ff0000'', ''outline_color'' \<mapsto> ''#112233''),
        ffmpeg_path := ''/usr/local/bin/ffmpeg'',
        ffmpeg_path_edit := ''/usr/local/bin/ffmpeg'',
        bg_anim_combo := setCurrentText (bg_anim_combo sample_window) ''blur'',
        text_anim_combo := setCurrentText (text_anim_combo sample_window) ''slide'',
        hw_accel_combo := setCurrentText (hw_accel_combo sample_window) ''AMD (h264_amf)'',
        font_combo_secondary := setCurrentText (font_combo_secondary sample_window) ''b.otf'',
        font_size_spin_primary := setValue (font_size_spin_primary sample_window) 100,
        outline_width_spin := setValue (outline_width_spin sample_window) 5\<rparr>"

definition started_window :: MainWindow where
  \<comment> \<open>a window as a new run of the program builds it, with the same fonts and catalogs and
      no asset chosen\<close>
  "started_window =
     populate_fonts (Some [''a.ttf'', ''b.otf''])
       (setup_ui ''linux'' Map.empty ''/opt/app'' ''/tmp''
          [''none'', ''blur''] [''fade'', ''slide''] [''static'', ''rotate''])"

definition nofont_window :: MainWindow where
  \<comment> \<open>the same with an empty font directory\<close>
  "nofont_window =
     populate_fonts (Some [])
       (setup_ui ''linux'' Map.empty ''/opt/app'' ''/tmp''
          [''none'', ''blur''] [''fade'', ''slide''] [''static'', ''rotate''])"

definition empty_document :: project_data where
  \<comment> \<open>the document \<^verbatim>\<open>{"version": 3.0}\<close>\<close>
  "empty_document = \<lparr>version = 3, d_file_paths = None, d_settings = None\<rparr>"

section \<open>Properties\<close>

subsection \<open>The relay: helper lemmas\<close>


lemma progress_values_append:
  "progress_values (xs @ ys) = progress_values xs @ progress_values ys"
  by (induction xs rule: progress_values.induct) simp_all

lemma logger_calls_emitter:
  "qt_emitter (fst (logger_calls lg cs)) = qt_emitter lg"
proof (induction cs arbitrary: lg)
  case Nil
  show ?case by simp
next
  case (Cons c cs)
  show ?case
  proof (cases c)
    case (StatusUpdate m)
    with Cons show ?thesis by (simp add: split_beta)
  next
    case (ProgressUpdate p)
    with Cons show ?thesis
      by (auto simp: progress_update_def split_beta split: sum.splits)
  qed
qed

lemma logger_calls_progress:
  assumes "has_progress_signal (qt_emitter lg)"
  shows "sorted_wrt (<) (progress_values (snd (logger_calls lg cs))) \<and>
         (\<forall>v \<in> set (progress_values (snd (logger_calls lg cs))).
            last_percent lg < v \<and> v \<in> set (reported cs))"
  using assms
proof (induction cs arbitrary: lg)
  case Nil
  show ?case by simp
next
  case (Cons c cs)
  show ?case
  proof (cases c)
    case (StatusUpdate m)
    with Cons show ?thesis
      by (simp add: split_beta status_update_def)
  next
    case (ProgressUpdate p)
    show ?thesis
    proof (cases "p > last_percent lg")
      case True
      let ?lg1 = "lg\<lparr>last_percent := p\<rparr>"
      have e: "has_progress_signal (qt_emitter ?lg1)" using Cons.prems by simp
      from Cons.IH[OF e] have ih:
        "sorted_wrt (<) (progress_values (snd (logger_calls ?lg1 cs)))"
        "\<forall>v \<in> set (progress_values (snd (logger_calls ?lg1 cs))). p < v \<and> v \<in> set (reported cs)"
        by simp_all
      have eq: "progress_values (snd (logger_calls lg (c # cs))) =
                p # progress_values (snd (logger_calls ?lg1 cs))"
        using True Cons.prems ProgressUpdate
        by (simp add: progress_update_def split_beta)
      show ?thesis unfolding eq using ih True ProgressUpdate by auto
    next
      case False
      have eq: "logger_calls lg (c # cs) = logger_calls lg cs"
        using False ProgressUpdate by (simp add: progress_update_def split_beta)
      show ?thesis unfolding eq using Cons.IH[OF Cons.prems] ProgressUpdate by auto
    qed
  qed
qed

lemma logger_calls_no_progress_signal:
  "\<not> has_progress_signal (qt_emitter lg) \<Longrightarrow> progress_values (snd (logger_calls lg cs)) = []"
proof (induction cs arbitrary: lg)
  case Nil
  show ?case by simp
next
  case (Cons c cs)
  then show ?case
    by (cases c) (simp_all add: progress_update_def split_beta status_update_def)
qed

lemma VideoWorker_run_progress:
  "progress_values (snd (VideoWorker_run ps engine)) =
   progress_values (snd (logger_calls (QtProglogLogger_init VideoWorker) (calls engine)))"
  by (simp add: VideoWorker_run_def Let_def progress_values_append split: option.splits)

lemma PreviewWorker_run_progress:
  "progress_values (snd (PreviewWorker_run ps engine fs)) = []"
  by (simp add: PreviewWorker_run_def Let_def progress_values_append
      logger_calls_no_progress_signal QtProglogLogger_init_def split: option.splits)

subsection \<open>Claim C1\<close>

text \<open>
  Claim C1, amended. The relay starts with \<open>last_percent = -1\<close>. On a worker that has a
  \<^verbatim>\<open>progress\<close> signal, \<^verbatim>\<open>progress_update(p)\<close> forwards \<open>p\<close> exactly when \<open>p > last_percent\<close>, and
  then stores it; any other \<open>p\<close> is suppressed. So the percents a render job delivers are
  strictly increasing, each is one the engine reported and is at least 0, and none exceeds
  100 when the engine reported none above 100: the relay does not clamp. A preview worker
  has no \<^verbatim>\<open>progress\<close> signal and delivers no percent.
\<close>

theorem relay_progress_increasing:
  "last_percent (QtProglogLogger_init emitter) = - 1 \<and>
   (has_progress_signal (qt_emitter lg) \<longrightarrow>
      progress_update lg p =
        (if p > last_percent lg then Inr (lg\<lparr>last_percent := p\<rparr>, [Progress p])
         else Inr (lg, []))) \<and>
   sorted_wrt (<) (progress_values (snd (VideoWorker_run ps engine))) \<and>
   (\<forall>v \<in> set (progress_values (snd (VideoWorker_run ps engine))).
      0 \<le> v \<and> v \<in> set (reported (calls engine))) \<and>
   ((\<forall>r \<in> set (reported (calls engine)). r \<le> 100) \<longrightarrow>
    (\<forall>v \<in> set (progress_values (snd (VideoWorker_run ps engine))). v \<le> 100)) \<and>
   progress_values (snd (PreviewWorker_run ps engine fs)) = []"
proof -
  let ?lg = "QtProglogLogger_init VideoWorker"
  have hp: "has_progress_signal (qt_emitter ?lg)" by (simp add: QtProglogLogger_init_def)
  have l: "last_percent ?lg = - 1" by (simp add: QtProglogLogger_init_def)
  note main = logger_calls_progress[OF hp, of "calls engine"]
  have a: "last_percent (QtProglogLogger_init emitter) = - 1"
    by (simp add: QtProglogLogger_init_def)
  have b: "has_progress_signal (qt_emitter lg) \<longrightarrow>
      progress_update lg p =
        (if p > last_percent lg then Inr (lg\<lparr>last_percent := p\<rparr>, [Progress p])
         else Inr (lg, []))"
    by (simp add: progress_update_def)
  have c: "sorted_wrt (<) (progress_values (snd (VideoWorker_run ps engine)))"
    using main by (simp add: VideoWorker_run_progress)
  have d: "\<forall>v \<in> set (progress_values (snd (VideoWorker_run ps engine))).
      0 \<le> v \<and> v \<in> set (reported (calls engine))"
    using main l by (auto simp: VideoWorker_run_progress)
  have e: "(\<forall>r \<in> set (reported (calls engine)). r \<le> 100) \<longrightarrow>
    (\<forall>v \<in> set (progress_values (snd (VideoWorker_run ps engine))). v \<le> 100)"
    using d by blast
  show ?thesis using a b c d e PreviewWorker_run_progress by blast
qed

theorem relay_progress_increasing_witness:
  "has_progress_signal (qt_emitter (QtProglogLogger_init VideoWorker)) \<and>
   progress_update (QtProglogLogger_init VideoWorker) 0 =
     Inr (\<lparr>qt_emitter = VideoWorker, last_percent = 0\<rparr>, [Progress 0]) \<and>
   reported (calls sample_engine) = [0, 0, 40, 20, 100] \<and>
   progress_values (snd (VideoWorker_run sample_params sample_engine)) = [0, 40, 100] \<and>
   sorted_wrt (<) (progress_values (snd (VideoWorker_run sample_params sample_engine))) \<and>
   list_all (\<lambda>v. 0 \<le> v \<and> v \<le> 100)
     (progress_values (snd (VideoWorker_run sample_params sample_engine)))"
proof -
  have r: "reported (calls sample_engine) = [0, 0, 40, 20, 100]"
    by (simp add: sample_engine_def)
  have h: "\<forall>r \<in> set (reported (calls sample_engine)). r \<le> 100"
    unfolding r by simp
  have v: "progress_values (snd (VideoWorker_run sample_params sample_engine)) = [0, 40, 100]"
    by (simp add: VideoWorker_run_def sample_engine_def QtProglogLogger_init_def
        progress_update_def status_update_def Let_def)
  have e: "has_progress_signal (qt_emitter (QtProglogLogger_init VideoWorker))"
    by (simp add: QtProglogLogger_init_def)
  from relay_progress_increasing
         [of VideoWorker "QtProglogLogger_init VideoWorker" 0 sample_params sample_engine sample_fs]
       e h
  have "progress_update (QtProglogLogger_init VideoWorker) 0 =
          Inr (\<lparr>qt_emitter = VideoWorker, last_percent = 0\<rparr>, [Progress 0]) \<and>
        sorted_wrt (<) (progress_values (snd (VideoWorker_run sample_params sample_engine))) \<and>
        (\<forall>v \<in> set (progress_values (snd (VideoWorker_run sample_params sample_engine))).
           0 \<le> v \<and> v \<le> 100)"
    by (simp add: QtProglogLogger_init_def)
  then show ?thesis using e r v by (simp add: list_all_iff)
qed

theorem relay_forwards_above_100:
  "progress_values
     (snd (VideoWorker_run sample_params \<lparr>calls = [ProgressUpdate 150], raised = None\<rparr>)) = [150] \<and>
   \<not> (150 \<le> (100::int))"
  by (simp add: VideoWorker_run_def QtProglogLogger_init_def progress_update_def Let_def)

subsection \<open>Claim C3\<close>

lemma finished_signals_append:
  "finished_signals (xs @ ys) = finished_signals xs @ finished_signals ys"
  by (induction xs rule: finished_signals.induct) simp_all

lemma logger_calls_not_finished:
  "finished_signals (snd (logger_calls lg cs)) = []"
proof (induction cs arbitrary: lg)
  case Nil
  show ?case by simp
next
  case (Cons c cs)
  then show ?case
    by (cases c)
       (auto simp: progress_update_def status_update_def split_beta finished_signals_append)
qed


lemma preview_error_prefix_nonempty: "preview_error_prefix @ m \<noteq> []"
  by (simp add: preview_error_prefix_def)



subsection \<open>Claim C5\<close>

lemma VideoWorker_run_signals:
  "snd (VideoWorker_run ps engine) =
     snd (logger_calls (QtProglogLogger_init VideoWorker) (calls engine)) @
     [FinishedVideo (case raised engine of
                       None \<Rightarrow> video_success_message
                     | Some e \<Rightarrow> video_error_prefix @ exc_str e)]"
  by (simp add: VideoWorker_run_def Let_def split: option.splits)





subsection \<open>Claim C9\<close>

text \<open>
  Claim C9. \<^verbatim>\<open>generation_finished\<close> decides success from the message alone: it shows the
  success dialog and sets the progress bar to 100 exactly when the message contains the
  marker, and the failure dialog with the bar at 0 otherwise. A failure whose text contains
  the marker is therefore reported as a success: when the engine raises an exception whose
  text is the one line 96 uses for a failed preview (it reads "FFmpeg could not
  successfully create the preview image"), the render job's terminal message is the failure
  message, and the window shows the success dialog and a bar at 100.
\<close>

theorem success_is_marker_in_message:
  "snd (generation_finished message w) =
     (if sublist success_marker message then [Information done_title message]
      else [Critical failed_title (failed_before @ message @ failed_after)]) \<and>
   progress_bar (fst (generation_finished message w)) =
     (if sublist success_marker message then 100 else 0) \<and>
   (snd (generation_finished message w) = [Information done_title message]) =
     sublist success_marker message \<and>
   finished_signals
     (snd (VideoWorker_run ps
             \<lparr>calls = cs, raised = Some (PyException ''RuntimeError'' preview_missing_message)\<rparr>)) =
     [FinishedVideo (video_error_prefix @ preview_missing_message)] \<and>
   snd (generation_finished (video_error_prefix @ preview_missing_message) w) =
     [Information done_title (video_error_prefix @ preview_missing_message)] \<and>
   progress_bar (fst (generation_finished (video_error_prefix @ preview_missing_message) w)) = 100"
proof -
  have m: "sublist success_marker (video_error_prefix @ preview_missing_message)"
    by (simp add: success_marker_def video_error_prefix_def preview_missing_message_def
        sublist_Cons_right)
  have a: "snd (generation_finished message w) =
     (if sublist success_marker message then [Information done_title message]
      else [Critical failed_title (failed_before @ message @ failed_after)])"
    by (simp add: generation_finished_def Let_def)
  have b: "progress_bar (fst (generation_finished message w)) =
     (if sublist success_marker message then 100 else 0)"
    by (simp add: generation_finished_def Let_def)
  have c: "(snd (generation_finished message w) = [Information done_title message]) =
     sublist success_marker message"
    by (simp add: generation_finished_def Let_def)
  have d: "finished_signals
     (snd (VideoWorker_run ps
             \<lparr>calls = cs, raised = Some (PyException ''RuntimeError'' preview_missing_message)\<rparr>)) =
     [FinishedVideo (video_error_prefix @ preview_missing_message)]"
    by (simp add: VideoWorker_run_signals finished_signals_append logger_calls_not_finished)
  have e: "snd (generation_finished (video_error_prefix @ preview_missing_message) w) =
     [Information done_title (video_error_prefix @ preview_missing_message)]"
    using m by (simp add: generation_finished_def Let_def)
  have f: "progress_bar
      (fst (generation_finished (video_error_prefix @ preview_missing_message) w)) = 100"
    using m by (simp add: generation_finished_def Let_def)
  show ?thesis using a b c d e f by blast
qed

theorem success_is_marker_in_message_witness:
  "sublist success_marker video_success_message \<and>
   snd (generation_finished video_success_message sample_window) =
     [Information done_title video_success_message] \<and>
   \<not> sublist success_marker (video_error_prefix @ ''ffmpeg exited with code 1'') \<and>
   snd (generation_finished (video_error_prefix @ ''ffmpeg exited with code 1'') sample_window) =
     [Critical failed_title
        (failed_before @ (video_error_prefix @ ''ffmpeg exited with code 1'') @ failed_after)] \<and>
   finished_signals (snd (VideoWorker_run sample_params failing_engine)) =
     [FinishedVideo (video_error_prefix @ ''ffmpeg exited with code 1'')]"
proof -
  have y: "sublist success_marker video_success_message"
    by (simp add: success_marker_def video_success_message_def sublist_Cons_right)
  have n: "\<not> sublist success_marker (video_error_prefix @ ''ffmpeg exited with code 1'')"
    by (simp add: success_marker_def video_error_prefix_def sublist_Cons_right)
  have r: "raised failing_engine =
             Some (PyException ''RuntimeError'' ''ffmpeg exited with code 1'')"
    by (simp add: failing_engine_def)
  have s: "finished_signals (snd (VideoWorker_run sample_params failing_engine)) =
     [FinishedVideo (video_error_prefix @ ''ffmpeg exited with code 1'')]"
    by (simp add: VideoWorker_run_signals finished_signals_append logger_calls_not_finished r)
  show ?thesis
    using y n s
      success_is_marker_in_message [of video_success_message sample_window sample_params "[]"]
      success_is_marker_in_message
        [of "video_error_prefix @ ''ffmpeg exited with code 1''" sample_window sample_params "[]"]
    by simp
qed

subsection \<open>Claim C2\<close>

lemma sample_window_compiles:
  "gather_parameters sample_fs sample_window = Inr sample_params"
  by (simp add: gather_parameters_def sample_window_def sample_fs_def sample_params_def
      file_types_def invalid_path_def os_path_exists_def populate_fonts_def setup_ui_def
      create_color_selector_def truthy_def create_combo_row_def addItems_def QComboBox_new_def
      currentText_def path_join_def os_sep_def QSpinBox_new_def setRange_def setValue_def
      Let_def)


lemma path_join_nonempty: "path_join pf directory name \<noteq> []"
  by (simp add: path_join_def os_sep_def)

lemma generate_preview_started:
  assumes "generate_preview probe fs token w = Inr (w1, shown, Some ps)"
  shows "preview_image_path w1 =
           path_join (sys_platform w) (temp_dir w) (''preview_'' @ token @ ''.png'') \<and>
         output_image_path ps =
           Some (path_join (sys_platform w) (temp_dir w) (''preview_'' @ token @ ''.png'')) \<and>
         shown = []"
  using assms
  by (auto simp: generate_preview_def check_ffmpeg_def Let_def
      split: ffmpeg_check.splits sum.splits if_splits)

lemma logger_calls_status_only:
  "deliver_preview (snd (logger_calls lg cs) @ rest) w fs = deliver_preview rest w fs"
proof (induction cs arbitrary: lg)
  case Nil
  show ?case by simp
next
  case (Cons c cs)
  then show ?case
    by (cases c) (auto simp: progress_update_def status_update_def split_beta)
qed

lemma PreviewWorker_run_delivery:
  assumes "output_image_path ps = Some path"
  shows "\<exists>px msg.
           finished_signals (snd (PreviewWorker_run ps engine fs)) = [FinishedPreview px msg] \<and>
           deliver_preview (snd (PreviewWorker_run ps engine fs)) w fs' =
             (case on_preview_finished px msg w fs' of
                (w2, fs2, shown2) \<Rightarrow> (w2, fs2, shown2))"
  using assms
  by (auto simp: PreviewWorker_run_def Let_def finished_signals_append
      logger_calls_not_finished logger_calls_status_only split: option.splits prod.splits)

lemma PreviewWorker_run_missing:
  assumes "output_image_path ps = Some path" and "raised engine = None"
    and "\<not> os_path_exists fs path \<or> os_path_getsize fs path = Inr 0"
  shows "finished_signals (snd (PreviewWorker_run ps engine fs)) =
           [FinishedPreview NullPixmap (preview_error_prefix @ preview_missing_message)]"
  using assms
  by (auto simp: PreviewWorker_run_def Let_def finished_signals_append
      logger_calls_not_finished)

lemma on_preview_finished_failure:
  assumes "msg \<noteq> []"
  shows "snd (snd (on_preview_finished px msg w fs)) =
           [Critical preview_failed_title (preview_failed_before @ msg)] \<and>
         preview_display (fst (on_preview_finished px msg w fs)) =
           DisplayText preview_failed_display"
  using assms by (simp add: on_preview_finished_def Let_def)

lemma on_preview_finished_files:
  assumes "preview_image_path w = path" and "path \<noteq> []"
  shows "(path \<notin> locked fs \<longrightarrow> \<not> os_path_exists (fst (snd (on_preview_finished px msg w fs))) path) \<and>
         (path \<in> locked fs \<longrightarrow> fst (snd (on_preview_finished px msg w fs)) = fs) \<and>
         (\<forall>q. q \<noteq> path \<longrightarrow>
            files (fst (snd (on_preview_finished px msg w fs))) q = files fs q)"
  using assms
  by (auto simp: on_preview_finished_def Let_def os_remove_def os_path_exists_def
      split: sum.splits if_splits)

text \<open>
  Claim C2, amended. In a preview job whose engine call returns without raising, when the
  output image does not exist or has size zero the worker's one \<^verbatim>\<open>finished\<close> signal carries
  the null pixmap and a message that is not empty, and the window reports a failure (the
  preview failure dialog). After any preview job, failed or not, the window has tried to
  delete the scratch image: the path no longer exists unless the operating system refused
  the deletion, in which case the \<^verbatim>\<open>OSError\<close> is swallowed and the file system is as the
  engine left it. No other file is touched.
\<close>

theorem empty_preview_is_failure:
  "preview_job probe fs token engine fs_engine w = Some (sigs, w2, fs2, shown) \<longrightarrow>
     (raised engine = None \<and>
      (\<not> os_path_exists fs_engine
           (path_join (sys_platform w) (temp_dir w) (''preview_'' @ token @ ''.png'')) \<or>
       os_path_getsize fs_engine
           (path_join (sys_platform w) (temp_dir w) (''preview_'' @ token @ ''.png'')) = Inr 0) \<longrightarrow>
        finished_signals sigs =
          [FinishedPreview NullPixmap (preview_error_prefix @ preview_missing_message)] \<and>
        preview_error_prefix @ preview_missing_message \<noteq> [] \<and>
        shown = [Critical preview_failed_title
                   (preview_failed_before @ preview_error_prefix @ preview_missing_message)] \<and>
        preview_display w2 = DisplayText preview_failed_display) \<and>
     (path_join (sys_platform w) (temp_dir w) (''preview_'' @ token @ ''.png'') \<notin> locked fs_engine \<longrightarrow>
        \<not> os_path_exists fs2
            (path_join (sys_platform w) (temp_dir w) (''preview_'' @ token @ ''.png''))) \<and>
     (path_join (sys_platform w) (temp_dir w) (''preview_'' @ token @ ''.png'') \<in> locked fs_engine \<longrightarrow>
        fs2 = fs_engine) \<and>
     (\<forall>q. q \<noteq> path_join (sys_platform w) (temp_dir w) (''preview_'' @ token @ ''.png'') \<longrightarrow>
        files fs2 q = files fs_engine q)"
proof
  let ?path = "path_join (sys_platform w) (temp_dir w) (''preview_'' @ token @ ''.png'')"
  assume job: "preview_job probe fs token engine fs_engine w = Some (sigs, w2, fs2, shown)"
  then obtain w1 shown1 ps where
    g: "generate_preview probe fs token w = Inr (w1, shown1, Some ps)"
    by (auto simp: preview_job_def split: sum.splits prod.splits option.splits)
  from generate_preview_started[OF g] have
    p1: "preview_image_path w1 = ?path" and p2: "output_image_path ps = Some ?path"
    and s1: "shown1 = []"
    by simp_all
  from PreviewWorker_run_delivery[OF p2, of engine fs_engine w1 fs_engine]
  obtain px msg where
    f: "finished_signals (snd (PreviewWorker_run ps engine fs_engine)) = [FinishedPreview px msg]"
    and d: "deliver_preview (snd (PreviewWorker_run ps engine fs_engine)) w1 fs_engine =
              (case on_preview_finished px msg w1 fs_engine of
                 (w2, fs2, shown2) \<Rightarrow> (w2, fs2, shown2))"
    by blast
  from job g d s1 have
    sigs: "sigs = snd (PreviewWorker_run ps engine fs_engine)"
    and res: "on_preview_finished px msg w1 fs_engine = (w2, fs2, shown)"
    by (auto simp: preview_job_def Let_def split: prod.splits)
  have fs2: "fs2 = fst (snd (on_preview_finished px msg w1 fs_engine))" using res by simp
  have files: "(?path \<notin> locked fs_engine \<longrightarrow> \<not> os_path_exists fs2 ?path) \<and>
               (?path \<in> locked fs_engine \<longrightarrow> fs2 = fs_engine) \<and>
               (\<forall>q. q \<noteq> ?path \<longrightarrow> files fs2 q = files fs_engine q)"
    unfolding fs2 by (rule on_preview_finished_files[OF p1 path_join_nonempty])
  have failure: "raised engine = None \<and>
      (\<not> os_path_exists fs_engine ?path \<or> os_path_getsize fs_engine ?path = Inr 0) \<longrightarrow>
        finished_signals sigs =
          [FinishedPreview NullPixmap (preview_error_prefix @ preview_missing_message)] \<and>
        preview_error_prefix @ preview_missing_message \<noteq> [] \<and>
        shown = [Critical preview_failed_title
                   (preview_failed_before @ preview_error_prefix @ preview_missing_message)] \<and>
        preview_display w2 = DisplayText preview_failed_display"
  proof
    assume a: "raised engine = None \<and>
      (\<not> os_path_exists fs_engine ?path \<or> os_path_getsize fs_engine ?path = Inr 0)"
    from PreviewWorker_run_missing[OF p2, of engine fs_engine] a have
      m: "finished_signals (snd (PreviewWorker_run ps engine fs_engine)) =
            [FinishedPreview NullPixmap (preview_error_prefix @ preview_missing_message)]"
      by simp
    with f have e: "px = NullPixmap" "msg = preview_error_prefix @ preview_missing_message"
      by simp_all
    have ne: "msg \<noteq> []" unfolding e by (rule preview_error_prefix_nonempty)
    from on_preview_finished_failure[OF ne, of px w1 fs_engine] res e
    show "finished_signals sigs =
          [FinishedPreview NullPixmap (preview_error_prefix @ preview_missing_message)] \<and>
        preview_error_prefix @ preview_missing_message \<noteq> [] \<and>
        shown = [Critical preview_failed_title
                   (preview_failed_before @ preview_error_prefix @ preview_missing_message)] \<and>
        preview_display w2 = DisplayText preview_failed_display"
      using m sigs ne by simp
  qed
  show "(raised engine = None \<and>
      (\<not> os_path_exists fs_engine ?path \<or> os_path_getsize fs_engine ?path = Inr 0) \<longrightarrow>
        finished_signals sigs =
          [FinishedPreview NullPixmap (preview_error_prefix @ preview_missing_message)] \<and>
        preview_error_prefix @ preview_missing_message \<noteq> [] \<and>
        shown = [Critical preview_failed_title
                   (preview_failed_before @ preview_error_prefix @ preview_missing_message)] \<and>
        preview_display w2 = DisplayText preview_failed_display) \<and>
     (?path \<notin> locked fs_engine \<longrightarrow> \<not> os_path_exists fs2 ?path) \<and>
     (?path \<in> locked fs_engine \<longrightarrow> fs2 = fs_engine) \<and>
     (\<forall>q. q \<noteq> ?path \<longrightarrow> files fs2 q = files fs_engine q)"
    using failure files by blast
qed

lemma sample_window_preview_fields:
  "sys_platform sample_window = ''linux'' \<and> temp_dir sample_window = ''/tmp/lrc2video'' \<and>
   preview_slider sample_window = 0"
  by (simp add: sample_window_def populate_fonts_def setup_ui_def path_join_def os_sep_def)

lemma sample_generate_preview:
  "generate_preview FFmpegFound sample_fs ''00ff'' sample_window =
     Inr (sample_window\<lparr>preview_image_path := sample_preview_path, ui_enabled := False,
                        preview_display := DisplayText preview_generating_display\<rparr>,
          [], Some sample_preview_params)"
  by (simp add: generate_preview_def check_ffmpeg_def sample_window_compiles
      sample_window_preview_fields sample_preview_params_def sample_preview_path_def Let_def
      path_join_def os_sep_def)

lemma sample_preview_run:
  "files fs' sample_preview_path = Some \<lparr>st_size = 0, is_image = False\<rparr> \<Longrightarrow>
   snd (PreviewWorker_run sample_preview_params quiet_engine fs') =
     [FinishedPreview NullPixmap (preview_error_prefix @ preview_missing_message)]"
  by (simp add: PreviewWorker_run_def sample_preview_params_def quiet_engine_def Let_def
      os_path_exists_def os_path_getsize_def sample_preview_path_def)

lemma sample_preview_path_eq:
  "path_join (sys_platform sample_window) (temp_dir sample_window)
     (''preview_'' @ ''00ff'' @ ''.png'') = sample_preview_path"
  by (simp add: sample_window_preview_fields path_join_def os_sep_def sample_preview_path_def)

theorem empty_preview_is_failure_witness:
  "raised quiet_engine = None \<and>
   os_path_getsize fs_empty_preview sample_preview_path = Inr 0 \<and>
   sample_preview_path \<notin> locked fs_empty_preview \<and>
   (case preview_job FFmpegFound sample_fs ''00ff'' quiet_engine fs_empty_preview sample_window of
      None \<Rightarrow> False
    | Some (sigs, w2, fs2, shown) \<Rightarrow>
        finished_signals sigs =
          [FinishedPreview NullPixmap (preview_error_prefix @ preview_missing_message)] \<and>
        shown = [Critical preview_failed_title
                   (preview_failed_before @ preview_error_prefix @ preview_missing_message)] \<and>
        \<not> os_path_exists fs2 sample_preview_path \<and>
        files fs2 ''/m/song.mp3'' = files fs_empty_preview ''/m/song.mp3'')"
proof -
  have r: "raised quiet_engine = None" by (simp add: quiet_engine_def)
  have z: "os_path_getsize fs_empty_preview sample_preview_path = Inr 0"
    by (simp add: os_path_getsize_def fs_empty_preview_def)
  have l: "sample_preview_path \<notin> locked fs_empty_preview"
    by (simp add: fs_empty_preview_def sample_fs_def)
  have ne: "''/m/song.mp3'' \<noteq> sample_preview_path" by (simp add: sample_preview_path_def)
  obtain sigs w2 fs2 shown where
    job: "preview_job FFmpegFound sample_fs ''00ff'' quiet_engine fs_empty_preview sample_window =
            Some (sigs, w2, fs2, shown)"
    by (cases "deliver_preview (snd (PreviewWorker_run sample_preview_params quiet_engine
                                        fs_empty_preview))
                 (sample_window\<lparr>preview_image_path := sample_preview_path, ui_enabled := False,
                                 preview_display := DisplayText preview_generating_display\<rparr>)
                 fs_empty_preview")
       (simp add: preview_job_def sample_generate_preview Let_def)
  note inst = empty_preview_is_failure
         [where probe = FFmpegFound and fs = sample_fs and token = "''00ff''"
            and engine = quiet_engine and fs_engine = fs_empty_preview and w = sample_window
            and sigs = sigs and ?w2.0 = w2 and ?fs2.0 = fs2 and shown = shown,
          unfolded sample_preview_path_eq]
  from inst job r z l ne
  have "finished_signals sigs =
          [FinishedPreview NullPixmap (preview_error_prefix @ preview_missing_message)] \<and>
        shown = [Critical preview_failed_title
                   (preview_failed_before @ preview_error_prefix @ preview_missing_message)] \<and>
        \<not> os_path_exists fs2 sample_preview_path \<and>
        files fs2 ''/m/song.mp3'' = files fs_empty_preview ''/m/song.mp3''"
    by (simp add: preview_error_prefix_nonempty)
  then show ?thesis using r z l job by simp
qed

theorem locked_preview_image_remains:
  "raised quiet_engine = None \<and>
   os_path_getsize fs_locked_preview sample_preview_path = Inr 0 \<and>
   (case preview_job FFmpegFound sample_fs ''00ff'' quiet_engine fs_locked_preview sample_window of
      None \<Rightarrow> False
    | Some (sigs, w2, fs2, shown) \<Rightarrow>
        finished_signals sigs =
          [FinishedPreview NullPixmap (preview_error_prefix @ preview_missing_message)] \<and>
        os_path_exists fs2 sample_preview_path)"
proof -
  have r: "raised quiet_engine = None" by (simp add: quiet_engine_def)
  have f: "files fs_locked_preview sample_preview_path = Some \<lparr>st_size = 0, is_image = False\<rparr>"
    by (simp add: fs_locked_preview_def fs_empty_preview_def)
  have z: "os_path_getsize fs_locked_preview sample_preview_path = Inr 0"
    by (simp add: os_path_getsize_def f)
  have l: "sample_preview_path \<in> locked fs_locked_preview"
    by (simp add: fs_locked_preview_def)
  have p: "sample_preview_path \<noteq> []" by (simp add: sample_preview_path_def)
  have "case preview_job FFmpegFound sample_fs ''00ff'' quiet_engine fs_locked_preview
               sample_window of
      None \<Rightarrow> False
    | Some (sigs, w2, fs2, shown) \<Rightarrow>
        finished_signals sigs =
          [FinishedPreview NullPixmap (preview_error_prefix @ preview_missing_message)] \<and>
        os_path_exists fs2 sample_preview_path"
    by (simp add: preview_job_def sample_generate_preview Let_def sample_preview_run[OF f]
        on_preview_finished_def preview_error_prefix_nonempty os_path_exists_def os_remove_def
        f l p)
  then show ?thesis using r z by simp
qed

subsection \<open>Claim C4\<close>








subsection \<open>Claim C8\<close>

lemma audio_error_prefix_nonempty: "audio_error_prefix @ m \<noteq> []"
  by (simp add: audio_error_prefix_def)

text \<open>
  Claim C8. The duration probe's \<^verbatim>\<open>run\<close> emits exactly one \<^verbatim>\<open>finished\<close> signal, whatever the
  engine path and the audio path, and hands no exception on. When the probe tool cannot be
  run or exits with an error, or when its output does not parse as a number, the signal is
  \<open>(0, m)\<close> with \<open>m\<close> the fixed prefix followed by \<^verbatim>\<open>str(e)\<close>, not empty, and the same \<open>m\<close> is sent
  as a status; on success it is the parsed duration with the empty string. The first word
  of the command is the probe tool: \<^verbatim>\<open>ffprobe.exe\<close> on \<^verbatim>\<open>win32\<close> and \<^verbatim>\<open>ffprobe\<close> elsewhere,
  inside the directory of the engine path unless that path is the bare \<^verbatim>\<open>ffmpeg\<close>.
\<close>

theorem duration_probe_never_raises:
  "(subprocess_run env (ffprobe_cmd env ffmpeg audio) = Inl e \<longrightarrow>
      AudioInfoWorker_run env ffmpeg audio =
        [Status (audio_error_prefix @ exc_str e),
         FinishedAudio 0 (audio_error_prefix @ exc_str e)]) \<and>
   (subprocess_run env (ffprobe_cmd env ffmpeg audio) = Inr out \<and> py_float env out = Inl e \<longrightarrow>
      AudioInfoWorker_run env ffmpeg audio =
        [Status (audio_error_prefix @ exc_str e),
         FinishedAudio 0 (audio_error_prefix @ exc_str e)]) \<and>
   (subprocess_run env (ffprobe_cmd env ffmpeg audio) = Inr out \<and> py_float env out = Inr d \<longrightarrow>
      AudioInfoWorker_run env ffmpeg audio = [FinishedAudio d []]) \<and>
   audio_error_prefix @ exc_str e \<noteq> [] \<and>
   length (finished_signals (AudioInfoWorker_run env ffmpeg audio)) = 1 \<and>
   hd (ffprobe_cmd env ffmpeg audio) =
     (if ffmpeg \<noteq> ''ffmpeg''
      then parent_join env ffmpeg (if platform env = ''win32'' then ''ffprobe.exe'' else ''ffprobe'')
      else (if platform env = ''win32'' then ''ffprobe.exe'' else ''ffprobe'')) \<and>
   last (ffprobe_cmd env ffmpeg audio) = audio"
proof -
  have a: "subprocess_run env (ffprobe_cmd env ffmpeg audio) = Inl e \<longrightarrow>
      AudioInfoWorker_run env ffmpeg audio =
        [Status (audio_error_prefix @ exc_str e),
         FinishedAudio 0 (audio_error_prefix @ exc_str e)]"
    by (simp add: AudioInfoWorker_run_def Let_def)
  have b: "subprocess_run env (ffprobe_cmd env ffmpeg audio) = Inr out \<and>
           py_float env out = Inl e \<longrightarrow>
      AudioInfoWorker_run env ffmpeg audio =
        [Status (audio_error_prefix @ exc_str e),
         FinishedAudio 0 (audio_error_prefix @ exc_str e)]"
    by (simp add: AudioInfoWorker_run_def Let_def)
  have c: "subprocess_run env (ffprobe_cmd env ffmpeg audio) = Inr out \<and>
           py_float env out = Inr d \<longrightarrow>
      AudioInfoWorker_run env ffmpeg audio = [FinishedAudio d []]"
    by (simp add: AudioInfoWorker_run_def Let_def)
  have n: "length (finished_signals (AudioInfoWorker_run env ffmpeg audio)) = 1"
    by (simp add: AudioInfoWorker_run_def Let_def split: sum.splits)
  have h: "hd (ffprobe_cmd env ffmpeg audio) =
     (if ffmpeg \<noteq> ''ffmpeg''
      then parent_join env ffmpeg (if platform env = ''win32'' then ''ffprobe.exe'' else ''ffprobe'')
      else (if platform env = ''win32'' then ''ffprobe.exe'' else ''ffprobe''))"
    by (simp add: ffprobe_cmd_def ffprobe_path_def ffprobe_exe_def)
  have l: "last (ffprobe_cmd env ffmpeg audio) = audio"
    by (simp add: ffprobe_cmd_def)
  show ?thesis using a b c n h l audio_error_prefix_nonempty by blast
qed

lemma posix_examples:
  "posix_parent_join ''/usr/local/bin/ffmpeg'' ''ffprobe'' = ''/usr/local/bin/ffprobe'' \<and>
   posix_parent_join ''tools/ffmpeg'' ''ffprobe'' = ''tools/ffprobe'' \<and>
   posix_parent_join ''ffmpeg5'' ''ffprobe'' = ''ffprobe'' \<and>
   posix_parent_join ''/ffmpeg'' ''ffprobe'' = ''/ffprobe''"
  by (simp add: posix_parent_join_def posix_root_def posix_parts_def posix_str_def)

theorem duration_probe_never_raises_witness:
  "subprocess_run (posix_env tool_missing)
     (ffprobe_cmd (posix_env tool_missing) ''/nowhere/ffmpeg'' ''/m/song.mp3'') =
     Inl (PyException ''FileNotFoundError''
            ''[Errno 2] No such file or directory: /nowhere/ffprobe'') \<and>
   AudioInfoWorker_run (posix_env tool_missing) ''/nowhere/ffmpeg'' ''/m/song.mp3'' =
     [Status (audio_error_prefix @ ''[Errno 2] No such file or directory: /nowhere/ffprobe''),
      FinishedAudio 0
        (audio_error_prefix @ ''[Errno 2] No such file or directory: /nowhere/ffprobe'')] \<and>
   AudioInfoWorker_run (posix_env (tool_prints ''N/A'')) ''ffmpeg'' ''/m/song.mp3'' =
     [Status (audio_error_prefix @ ''could not convert string to float: N/A''),
      FinishedAudio 0 (audio_error_prefix @ ''could not convert string to float: N/A'')] \<and>
   AudioInfoWorker_run (posix_env (tool_prints ''12.5'')) ''/usr/local/bin/ffmpeg'' ''/m/song.mp3'' =
     [FinishedAudio (25 / 2) []] \<and>
   hd (ffprobe_cmd (posix_env (tool_prints ''12.5'')) ''/usr/local/bin/ffmpeg'' ''/m/song.mp3'') =
     ''/usr/local/bin/ffprobe'' \<and>
   hd (ffprobe_cmd (posix_env (tool_prints ''12.5'')) ''ffmpeg'' ''/m/song.mp3'') = ''ffprobe''"
proof -
  have cmd1: "hd (ffprobe_cmd (posix_env tool_missing) ''/nowhere/ffmpeg'' ''/m/song.mp3'') =
                ''/nowhere/ffprobe''"
    by (simp add: ffprobe_cmd_def ffprobe_path_def ffprobe_exe_def posix_env_def
        posix_parent_join_def posix_root_def posix_parts_def posix_str_def)
  have r1: "subprocess_run (posix_env tool_missing)
     (ffprobe_cmd (posix_env tool_missing) ''/nowhere/ffmpeg'' ''/m/song.mp3'') =
     Inl (PyException ''FileNotFoundError''
            ''[Errno 2] No such file or directory: /nowhere/ffprobe'')"
    using cmd1 by (simp add: posix_env_def tool_missing_def)
  have r2: "subprocess_run (posix_env (tool_prints ''N/A''))
              (ffprobe_cmd (posix_env (tool_prints ''N/A'')) ''ffmpeg'' ''/m/song.mp3'') =
              Inr ''N/A'' \<and>
            py_float (posix_env (tool_prints ''N/A'')) ''N/A'' =
              Inl (PyException ''ValueError'' ''could not convert string to float: N/A'')"
    by (simp add: posix_env_def tool_prints_def)
  have r3: "subprocess_run (posix_env (tool_prints ''12.5''))
              (ffprobe_cmd (posix_env (tool_prints ''12.5'')) ''/usr/local/bin/ffmpeg''
                 ''/m/song.mp3'') = Inr ''12.5'' \<and>
            py_float (posix_env (tool_prints ''12.5'')) ''12.5'' = Inr (25 / 2)"
    by (simp add: posix_env_def tool_prints_def)
  have p: "platform (posix_env (tool_prints ''12.5'')) = ''linux'' \<and>
           parent_join (posix_env (tool_prints ''12.5'')) ''/usr/local/bin/ffmpeg'' ''ffprobe'' =
             ''/usr/local/bin/ffprobe''"
    by (simp add: posix_env_def posix_examples)
  note t1 = duration_probe_never_raises
      [where env = "posix_env tool_missing" and ffmpeg = "''/nowhere/ffmpeg''"
         and audio = "''/m/song.mp3''"
         and e = "PyException ''FileNotFoundError''
                    ''[Errno 2] No such file or directory: /nowhere/ffprobe''"]
  note t2 = duration_probe_never_raises
      [where env = "posix_env (tool_prints ''N/A'')" and ffmpeg = "''ffmpeg''"
         and audio = "''/m/song.mp3''" and out = "''N/A''"
         and e = "PyException ''ValueError'' ''could not convert string to float: N/A''"]
  note t3 = duration_probe_never_raises
      [where env = "posix_env (tool_prints ''12.5'')" and ffmpeg = "''/usr/local/bin/ffmpeg''"
         and audio = "''/m/song.mp3''" and out = "''12.5''" and d = "25 / 2"]
  note t4 = duration_probe_never_raises
      [where env = "posix_env (tool_prints ''12.5'')" and ffmpeg = "''ffmpeg''"
         and audio = "''/m/song.mp3''"]
  have c1: "AudioInfoWorker_run (posix_env tool_missing) ''/nowhere/ffmpeg'' ''/m/song.mp3'' =
     [Status (audio_error_prefix @ ''[Errno 2] No such file or directory: /nowhere/ffprobe''),
      FinishedAudio 0
        (audio_error_prefix @ ''[Errno 2] No such file or directory: /nowhere/ffprobe'')]"
    using t1 r1 by simp
  have c2: "AudioInfoWorker_run (posix_env (tool_prints ''N/A'')) ''ffmpeg'' ''/m/song.mp3'' =
     [Status (audio_error_prefix @ ''could not convert string to float: N/A''),
      FinishedAudio 0 (audio_error_prefix @ ''could not convert string to float: N/A'')]"
    using t2 r2 by simp
  have c3: "AudioInfoWorker_run (posix_env (tool_prints ''12.5'')) ''/usr/local/bin/ffmpeg''
              ''/m/song.mp3'' = [FinishedAudio (25 / 2) []]"
    using t3 r3 by simp
  have c4: "hd (ffprobe_cmd (posix_env (tool_prints ''12.5'')) ''/usr/local/bin/ffmpeg''
                  ''/m/song.mp3'') = ''/usr/local/bin/ffprobe''"
    using t3 p by simp
  have c5: "hd (ffprobe_cmd (posix_env (tool_prints ''12.5'')) ''ffmpeg'' ''/m/song.mp3'') =
              ''ffprobe''"
    using t4 p by simp
  show ?thesis using r1 c1 c2 c3 c4 c5 by simp
qed

subsection \<open>Widgets and the project document: helper lemmas\<close>

lemma index_of_range: "- 1 \<le> index_of t xs \<and> index_of t xs < int (length xs)"
  by (induction xs) (auto simp: Let_def)

lemma index_of_mem:
  "t \<in> set xs \<Longrightarrow> 0 \<le> index_of t xs \<and> xs ! nat (index_of t xs) = t"
proof (induction xs)
  case Nil
  then show ?case by simp
next
  case (Cons x xs)
  show ?case
  proof (cases "x = t")
    case True
    then show ?thesis by simp
  next
    case False
    with Cons have ih: "0 \<le> index_of t xs" "xs ! nat (index_of t xs) = t" by simp_all
    have "nat (index_of t xs + 1) = Suc (nat (index_of t xs))" using ih(1) by simp
    with False ih show ?thesis by (simp add: Let_def)
  qed
qed

lemma index_of_not_mem: "t \<notin> set xs \<Longrightarrow> index_of t xs = - 1"
  by (induction xs) (auto simp: Let_def)

lemma index_of_found: "index_of t xs > - 1 \<Longrightarrow> t \<in> set xs"
  using index_of_not_mem[of t xs] by auto

lemma currentText_mem: "currentText combo \<noteq> [] \<Longrightarrow> currentText combo \<in> set (items combo)"
  by (auto simp: currentText_def split: if_splits)

lemma combo_ok_currentText:
  "combo_ok combo \<Longrightarrow> items combo \<noteq> [] \<Longrightarrow> currentText combo \<in> set (items combo)"
  by (auto simp: combo_ok_def currentText_def)

lemma set_combo_text_items [simp]: "items (set_combo_text combo v) = items combo"
  by (simp add: set_combo_text_def setCurrentText_def Let_def split: option.splits)

lemma set_combo_text_keeps:
  "v = None \<or> v = Some [] \<or> (\<exists>t. v = Some t \<and> t \<notin> set (items combo)) \<Longrightarrow>
   set_combo_text combo v = combo"
  by (auto simp: set_combo_text_def findText_def index_of_not_mem)

lemma set_combo_text_selects:
  assumes "t \<noteq> []" and "t \<in> set (items combo)"
  shows "currentText (set_combo_text combo (Some t)) = t"
proof -
  from index_of_mem[OF assms(2)] index_of_range[of t "items combo"]
  have "0 \<le> index_of t (items combo)" "index_of t (items combo) < int (length (items combo))"
    "items combo ! nat (index_of t (items combo)) = t"
    by simp_all
  with assms show ?thesis
    by (simp add: set_combo_text_def setCurrentText_def findText_def currentText_def Let_def)
qed

lemma set_combo_text_ok: "combo_ok combo \<Longrightarrow> combo_ok (set_combo_text combo v)"
proof (cases v)
  case None
  assume "combo_ok combo"
  with None show ?thesis by (simp add: set_combo_text_def)
next
  case (Some t)
  assume ok: "combo_ok combo"
  show ?thesis
  proof (cases "t \<noteq> [] \<and> findText combo t > - 1")
    case False
    with Some ok show ?thesis by (auto simp: set_combo_text_def)
  next
    case True
    then have m: "t \<in> set (items combo)" by (auto simp: findText_def intro: index_of_found)
    from index_of_mem[OF m] index_of_range[of t "items combo"] m True Some
    show ?thesis
      by (auto simp: set_combo_text_def setCurrentText_def findText_def combo_ok_def Let_def)
  qed
qed

lemma setValue_value:
  "spin_value (setValue sb v) = max (minimum sb) (min (maximum sb) v) \<and>
   minimum (setValue sb v) = minimum sb \<and> maximum (setValue sb v) = maximum sb"
  by (simp add: setValue_def)

lemma setValue_in_range:
  "minimum sb \<le> v \<Longrightarrow> v \<le> maximum sb \<Longrightarrow> spin_value (setValue sb v) = v"
  by (simp add: setValue_def)


lemma set_color_other:
  "sys_platform (set_color key v w) = sys_platform w \<and>
   file_paths (set_color key v w) = file_paths w \<and>
   line_edits (set_color key v w) = line_edits w \<and>
   ffmpeg_path (set_color key v w) = ffmpeg_path w \<and>
   ffmpeg_path_edit (set_color key v w) = ffmpeg_path_edit w \<and>
   font_dir (set_color key v w) = font_dir w \<and>
   temp_dir (set_color key v w) = temp_dir w \<and>
   bg_anim_combo (set_color key v w) = bg_anim_combo w \<and>
   text_anim_combo (set_color key v w) = text_anim_combo w \<and>
   cover_anim_combo (set_color key v w) = cover_anim_combo w \<and>
   hw_accel_combo (set_color key v w) = hw_accel_combo w \<and>
   font_combo_primary (set_color key v w) = font_combo_primary w \<and>
   font_combo_secondary (set_color key v w) = font_combo_secondary w \<and>
   font_size_spin_primary (set_color key v w) = font_size_spin_primary w \<and>
   font_size_spin_secondary (set_color key v w) = font_size_spin_secondary w \<and>
   outline_width_spin (set_color key v w) = outline_width_spin w"
  by (cases v) (simp_all add: set_color_def)

lemma set_color_settings:
  "settings (set_color key v w) k =
     (if k = key \<and> truthy v then v else settings w k)"
  by (cases v) (simp_all add: set_color_def truthy_def)

lemma load_document_unfold:
  "load_document doc w =
     (let w4 = set_color ''outline_color'' (d_outline_color (doc_settings doc))
                 (set_color ''color_secondary'' (d_color_secondary (doc_settings doc))
                    (set_color ''color_primary'' (d_color_primary (doc_settings doc))
                       (w\<lparr>file_paths := doc_file_paths doc,
                           line_edits :=
                             (\<lambda>key. case line_edits w key of
                                       None \<Rightarrow> None
                                     | Some old \<Rightarrow>
                                         Some (case doc_file_paths doc key of
                                                 None \<Rightarrow> [] | Some p \<Rightarrow> p)),
                           bg_anim_combo :=
                             set_combo_text (bg_anim_combo w) (d_background_anim (doc_settings doc)),
                           text_anim_combo :=
                             set_combo_text (text_anim_combo w) (d_text_anim (doc_settings doc)),
                           cover_anim_combo :=
                             set_combo_text (cover_anim_combo w) (d_cover_anim (doc_settings doc)),
                           hw_accel_combo :=
                             set_combo_text (hw_accel_combo w) (d_hw_accel (doc_settings doc)),
                           font_combo_primary :=
                             set_combo_text (font_combo_primary w)
                               (d_font_primary (doc_settings doc)),
                           font_combo_secondary :=
                             set_combo_text (font_combo_secondary w)
                               (d_font_secondary (doc_settings doc)),
                           font_size_spin_primary :=
                             setValue (font_size_spin_primary w)
                               (case d_font_size_primary (doc_settings doc) of
                                  None \<Rightarrow> 56 | Some v \<Rightarrow> v),
                           font_size_spin_secondary :=
                             setValue (font_size_spin_secondary w)
                               (case d_font_size_secondary (doc_settings doc) of
                                  None \<Rightarrow> 48 | Some v \<Rightarrow> v),
                           outline_width_spin :=
                             setValue (outline_width_spin w)
                               (case d_outline_width (doc_settings doc) of
                                  None \<Rightarrow> 3 | Some v \<Rightarrow> v)\<rparr>)))
      in if truthy (d_ffmpeg_path (doc_settings doc))
         then w4\<lparr>ffmpeg_path := the (d_ffmpeg_path (doc_settings doc)),
                 ffmpeg_path_edit := the (d_ffmpeg_path (doc_settings doc))\<rparr>
         else w4)"
  by (cases "d_ffmpeg_path (doc_settings doc)") (simp_all add: load_document_def Let_def truthy_def)

lemma load_document_combos:
  "bg_anim_combo (load_document doc w) =
     set_combo_text (bg_anim_combo w) (d_background_anim (doc_settings doc)) \<and>
   text_anim_combo (load_document doc w) =
     set_combo_text (text_anim_combo w) (d_text_anim (doc_settings doc)) \<and>
   cover_anim_combo (load_document doc w) =
     set_combo_text (cover_anim_combo w) (d_cover_anim (doc_settings doc)) \<and>
   hw_accel_combo (load_document doc w) =
     set_combo_text (hw_accel_combo w) (d_hw_accel (doc_settings doc)) \<and>
   font_combo_primary (load_document doc w) =
     set_combo_text (font_combo_primary w) (d_font_primary (doc_settings doc)) \<and>
   font_combo_secondary (load_document doc w) =
     set_combo_text (font_combo_secondary w) (d_font_secondary (doc_settings doc))"
  by (simp add: load_document_unfold Let_def set_color_other set_color_settings truthy_def
      split: option.splits)

lemma load_document_spins:
  "font_size_spin_primary (load_document doc w) =
     setValue (font_size_spin_primary w)
       (case d_font_size_primary (doc_settings doc) of None \<Rightarrow> 56 | Some v \<Rightarrow> v) \<and>
   font_size_spin_secondary (load_document doc w) =
     setValue (font_size_spin_secondary w)
       (case d_font_size_secondary (doc_settings doc) of None \<Rightarrow> 48 | Some v \<Rightarrow> v) \<and>
   outline_width_spin (load_document doc w) =
     setValue (outline_width_spin w)
       (case d_outline_width (doc_settings doc) of None \<Rightarrow> 3 | Some v \<Rightarrow> v)"
  by (simp add: load_document_unfold Let_def set_color_other set_color_settings truthy_def
      split: option.splits)

lemma load_document_paths:
  "file_paths (load_document doc w) = doc_file_paths doc \<and>
   ffmpeg_path (load_document doc w) =
     (case d_ffmpeg_path (doc_settings doc) of
        None \<Rightarrow> ffmpeg_path w
      | Some p \<Rightarrow> if p \<noteq> [] then p else ffmpeg_path w)"
  by (simp add: load_document_unfold Let_def set_color_other set_color_settings truthy_def
      split: option.splits)

lemma load_document_colors:
  "settings (load_document doc w) ''color_primary'' =
     (case d_color_primary (doc_settings doc) of
        None \<Rightarrow> settings w ''color_primary''
      | Some c \<Rightarrow> if c \<noteq> [] then Some c else settings w ''color_primary'') \<and>
   settings (load_document doc w) ''color_secondary'' =
     (case d_color_secondary (doc_settings doc) of
        None \<Rightarrow> settings w ''color_secondary''
      | Some c \<Rightarrow> if c \<noteq> [] then Some c else settings w ''color_secondary'') \<and>
   settings (load_document doc w) ''outline_color'' =
     (case d_outline_color (doc_settings doc) of
        None \<Rightarrow> settings w ''outline_color''
      | Some c \<Rightarrow> if c \<noteq> [] then Some c else settings w ''outline_color'')"
  by (simp add: load_document_unfold Let_def set_color_other set_color_settings truthy_def
      split: option.splits)

end
